theory Spec2Isabelle
  imports Complex_Main "HOL-Library.Char_ord" "HOL-Library.List_Lexorder"
begin

section \<open>A shallow embedding of the FinGestao backend (src/backend/server.py)\<close>

text \<open>
  Conventions of the model.
  \<^item> A \<open>datetime\<close> is an instant: the number of microseconds since the epoch, an \<open>int\<close>
    (Python's datetime has microsecond resolution); a \<open>timedelta\<close> is a difference of
    instants, again in microseconds.
  \<^item> A Mongo collection is the list of its documents in natural (insertion) order;
    a document is a record of the fields the handlers read and write.
  \<^item> A raised \<open>HTTPException(status_code, detail)\<close> is the value \<open>Inl (HTTPException code detail)\<close>;
    a handler that writes before it raises returns the written state next to the error.
  \<^item> Values the process draws from its environment (the clock, fresh uuids, signed JWT
    strings, the bcrypt check) are arguments of the handler.
\<close>

subsection \<open>Time\<close>

type_synonym datetime = int
type_synonym timedelta = int

definition timedelta_seconds :: "int \<Rightarrow> timedelta" where
  "timedelta_seconds n = n * 1000000"

definition timedelta_minutes :: "int \<Rightarrow> timedelta" where
  "timedelta_minutes n = timedelta_seconds (n * 60)"

definition timedelta_days :: "int \<Rightarrow> timedelta" where
  "timedelta_days n = timedelta_seconds (n * 86400)"

text \<open>\<open>td.days\<close>: timedelta normalises to \<open>0 \<le> seconds < 86400\<close>, so \<open>days\<close> is the floor.\<close>

definition days :: "timedelta \<Rightarrow> int" where
  "days td = td div timedelta_days 1"

subsection \<open>HTTP errors\<close>

datatype detail =
    Token_invalido
  | Token_expirado
  | Token_invalido_ou_revogado
  | Usuario_nao_encontrado
  | Muitas_tentativas
  | Email_ou_senha_incorretos
  | Categoria_nao_encontrada
  | Categoria_possui_transacoes int
  | Categoria_de_reatribuicao_nao_encontrada

datatype http_error = HTTPException nat detail

fun status_code :: "http_error \<Rightarrow> nat" where
  "status_code (HTTPException c d) = c"

subsection \<open>Login rate limiting (lines 40-41, 270-288)\<close>

text \<open>\<open>login_attempts = {}\<close>: email \<open>\<mapsto>\<close> (attempts, last\_attempt).\<close>

type_synonym login_attempts = "string \<rightharpoonup> (int \<times> datetime)"

definition check_rate_limit :: "datetime \<Rightarrow> string \<Rightarrow> login_attempts \<Rightarrow> bool" where
  "check_rate_limit now email login_attempts =
     (case login_attempts email of
        Some (attempts, last_attempt) \<Rightarrow>
          if now - last_attempt < timedelta_minutes 15
          then (if attempts \<ge> 5 then False else True)
          else True
      | None \<Rightarrow> True)"

definition record_login_attempt ::
  "datetime \<Rightarrow> string \<Rightarrow> bool \<Rightarrow> login_attempts \<Rightarrow> login_attempts" where
  "record_login_attempt now email success login_attempts =
     (if success then login_attempts(email := None)
      else (case login_attempts email of
              Some (attempts, _) \<Rightarrow> login_attempts(email \<mapsto> (attempts + 1, now))
            | None \<Rightarrow> login_attempts(email \<mapsto> (1, now))))"

subsection \<open>Documents\<close>

record user_doc =
  user_id_of :: string
  user_email :: string
  user_name :: string
  user_password :: string
  user_theme :: "string option"
  user_created_at :: string

record refresh_token_doc =
  rt_id :: string
  rt_user_id :: string
  rt_token :: string
  rt_created_at :: datetime
  rt_expires_at :: datetime

record auth_db =
  users :: "user_doc list"
  refresh_tokens :: "refresh_token_doc list"

record user_response =
  ur_id :: string
  ur_email :: string
  ur_name :: string
  ur_theme :: string
  ur_created_at :: string

record token_response =
  access_token :: string
  refresh_token_of :: string
  token_type :: string
  user_of :: user_response

definition REFRESH_TOKEN_EXPIRE_DAYS :: int where
  "REFRESH_TOKEN_EXPIRE_DAYS = 7"

text \<open>\<open>find_one(filter)\<close>: the first matching document, or None.\<close>

definition find_one :: "('a \<Rightarrow> bool) \<Rightarrow> 'a list \<Rightarrow> 'a option" where
  "find_one p xs = List.find p xs"

text \<open>\<open>delete_one(filter)\<close>: removes the first matching document only.\<close>

fun delete_one :: "('a \<Rightarrow> bool) \<Rightarrow> 'a list \<Rightarrow> 'a list" where
  "delete_one p [] = []"
| "delete_one p (x # xs) = (if p x then xs else x # delete_one p xs)"

definition insert_one :: "'a \<Rightarrow> 'a list \<Rightarrow> 'a list" where
  "insert_one x xs = xs @ [x]"

definition user_response_of :: "user_doc \<Rightarrow> user_response" where
  "user_response_of u =
     \<lparr> ur_id = user_id_of u, ur_email = user_email u, ur_name = user_name u,
       ur_theme = (case user_theme u of Some t \<Rightarrow> t | None \<Rightarrow> ''dark''),
       ur_created_at = user_created_at u \<rparr>"

subsection \<open>POST /auth/login (lines 372-415)\<close>

text \<open>\<open>str.lower()\<close> on the ASCII letters.\<close>

definition char_lower :: "char \<Rightarrow> char" where
  "char_lower c =
     (if CHR ''A'' \<le> c \<and> c \<le> CHR ''Z'' then char_of (of_char c + (32::nat)) else c)"

definition lower :: "string \<Rightarrow> string" where
  "lower s = map char_lower s"

text \<open>
  What one auth request takes from its environment: the bcrypt check
  \<open>pwd_context.verify\<close>, the outcome of \<open>jwt.decode\<close> on a presented token (it
  depends on the secret and on the clock), the clock read by \<open>check_rate_limit\<close>, by
  \<open>record_login_attempt\<close> and by the handler, the two signed tokens returned by
  \<open>create_access_token\<close> and \<open>create_refresh_token\<close> (the latter carries a
  fresh uuid4 as its jti) and the uuid of the RefreshToken document.
\<close>

datatype jwt_result =
    ExpiredSignatureError
  | InvalidTokenError
  | Payload (claim_type: "string option") (claim_sub: "string option")

record request_env =
  verify :: "string \<Rightarrow> string \<Rightarrow> bool"
  jwt_decode :: "string \<Rightarrow> jwt_result"
  now_check :: datetime
  now_record :: datetime
  now_handler :: datetime
  new_access_token :: string
  new_refresh_token :: string
  new_uuid :: string

definition login ::
  "request_env \<Rightarrow> string \<Rightarrow> string \<Rightarrow> login_attempts \<times> auth_db
     \<Rightarrow> (http_error + token_response) \<times> (login_attempts \<times> auth_db)" where
  "login env cred_email cred_password st =
     (let (login_attempts, db) = st;
          email = lower cred_email
      in if \<not> check_rate_limit (now_check env) email login_attempts
         then (Inl (HTTPException 429 Muitas_tentativas), st)
         else (case find_one (\<lambda>u. user_email u = email) (users db) of
                 None \<Rightarrow>
                   (Inl (HTTPException 401 Email_ou_senha_incorretos),
                    (record_login_attempt (now_record env) email False login_attempts, db))
               | Some user \<Rightarrow>
                   if \<not> verify env cred_password (user_password user)
                   then (Inl (HTTPException 401 Email_ou_senha_incorretos),
                         (record_login_attempt (now_record env) email False login_attempts, db))
                   else
                     (Inr \<lparr> access_token = new_access_token env,
                            refresh_token_of = new_refresh_token env,
                            token_type = ''bearer'',
                            user_of = user_response_of user \<rparr>,
                      (record_login_attempt (now_record env) email True login_attempts,
                       db\<lparr> refresh_tokens :=
                             insert_one
                               \<lparr> rt_id = new_uuid env, rt_user_id = user_id_of user,
                                 rt_token = new_refresh_token env,
                                 rt_created_at = now_handler env,
                                 rt_expires_at = now_handler env
                                    + timedelta_days REFRESH_TOKEN_EXPIRE_DAYS \<rparr>
                               (refresh_tokens db) \<rparr>))))"

subsection \<open>POST /auth/refresh (lines 417-468) and POST /auth/logout (lines 470-473)\<close>

text \<open>
  Every stored RefreshToken document carries a string \<open>user_id\<close>, so a payload without
  \<open>sub\<close> (\<open>user_id = None\<close>) matches no document.
\<close>

definition refresh_token ::
  "request_env \<Rightarrow> string \<Rightarrow> auth_db \<Rightarrow> (http_error + token_response) \<times> auth_db" where
  "refresh_token env data_refresh_token db =
     (case jwt_decode env data_refresh_token of
        ExpiredSignatureError \<Rightarrow> (Inl (HTTPException 401 Token_expirado), db)
      | InvalidTokenError \<Rightarrow> (Inl (HTTPException 401 Token_invalido), db)
      | Payload typ sub \<Rightarrow>
          if typ \<noteq> Some ''refresh'' then (Inl (HTTPException 401 Token_invalido), db)
          else
            (case sub of
               None \<Rightarrow> (Inl (HTTPException 401 Token_invalido_ou_revogado), db)
             | Some user_id \<Rightarrow>
                (case find_one (\<lambda>r. rt_token r = data_refresh_token \<and> rt_user_id r = user_id)
                        (refresh_tokens db) of
                   None \<Rightarrow> (Inl (HTTPException 401 Token_invalido_ou_revogado), db)
                 | Some stored_token \<Rightarrow>
                     (let db1 = db\<lparr> refresh_tokens :=
                                  delete_one (\<lambda>r. rt_token r = data_refresh_token)
                                    (refresh_tokens db) \<rparr>
                      in case find_one (\<lambda>u. user_id_of u = user_id) (users db1) of
                           None \<Rightarrow> (Inl (HTTPException 401 Usuario_nao_encontrado), db1)
                         | Some user \<Rightarrow>
                             (Inr \<lparr> access_token = new_access_token env,
                                    refresh_token_of = new_refresh_token env,
                                    token_type = ''bearer'',
                                    user_of = user_response_of user \<rparr>,
                              db1\<lparr> refresh_tokens :=
                                    insert_one
                                      \<lparr> rt_id = new_uuid env, rt_user_id = user_id,
                                        rt_token = new_refresh_token env,
                                        rt_created_at = now_handler env,
                                        rt_expires_at = now_handler env
                                          + timedelta_days REFRESH_TOKEN_EXPIRE_DAYS \<rparr>
                                      (refresh_tokens db1) \<rparr>)))))"

definition logout :: "string \<Rightarrow> auth_db \<Rightarrow> auth_db" where
  "logout data_refresh_token db =
     db\<lparr> refresh_tokens :=
          delete_one (\<lambda>r. rt_token r = data_refresh_token) (refresh_tokens db) \<rparr>"

text \<open>A sequence of login requests against the process state, in order.\<close>

fun logins ::
  "(request_env \<times> string \<times> string) list \<Rightarrow> login_attempts \<times> auth_db
     \<Rightarrow> (http_error + token_response) list \<times> (login_attempts \<times> auth_db)" where
  "logins [] st = ([], st)"
| "logins ((env, e, p) # reqs) st =
     (let (r, st1) = login env e p st;
          (rs, st2) = logins reqs st1
      in (r # rs, st2))"

subsection \<open>Categories and transactions (lines 110-170)\<close>

datatype tx_type = INCOME | EXPENSE

record category_doc =
  cat_id :: string
  cat_user_id :: string
  cat_name :: string
  cat_color :: string

text \<open>
  \<open>amount\<close> is a Python float. The model computes with exact rationals: it is the
  arithmetic the handlers are written in, without the representation error of binary
  floating point. \<open>date\<close> is the stored ISO-8601 string.
\<close>

record transaction_doc =
  tx_id :: string
  tx_user_id :: string
  tx_type :: tx_type
  tx_description :: string
  tx_amount :: rat
  tx_date :: string
  tx_category_id :: string
  tx_payment_method :: "string option"
  tx_notes :: "string option"
  tx_created_at :: string
  tx_updated_at :: string
  tx_deleted_at :: "string option"

record ledger_db =
  categories :: "category_doc list"
  transactions :: "transaction_doc list"

subsection \<open>DELETE /categories/\{category\_id\} (lines 648-690)\<close>

definition count_documents :: "('a \<Rightarrow> bool) \<Rightarrow> 'a list \<Rightarrow> int" where
  "count_documents p xs = int (length (filter p xs))"

definition update_many :: "('a \<Rightarrow> bool) \<Rightarrow> ('a \<Rightarrow> 'a) \<Rightarrow> 'a list \<Rightarrow> 'a list" where
  "update_many p f xs = map (\<lambda>x. if p x then f x else x) xs"

text \<open>\<open>not reassign_to\<close> holds for None and for the empty string.\<close>

definition falsy :: "string option \<Rightarrow> bool" where
  "falsy s = (case s of None \<Rightarrow> True | Some v \<Rightarrow> v = [])"

definition delete_category ::
  "string \<Rightarrow> string option \<Rightarrow> string \<Rightarrow> ledger_db \<Rightarrow> (http_error + unit) \<times> ledger_db" where
  "delete_category category_id reassign_to current_user_id db =
     (case find_one (\<lambda>c. cat_id c = category_id \<and> cat_user_id c = current_user_id)
             (categories db) of
        None \<Rightarrow> (Inl (HTTPException 404 Categoria_nao_encontrada), db)
      | Some category \<Rightarrow>
          (let tx_count = count_documents
                 (\<lambda>t. tx_category_id t = category_id \<and> tx_user_id t = current_user_id
                       \<and> tx_deleted_at t = None)
                 (transactions db)
           in if tx_count > 0 then
                (if falsy reassign_to
                 then (Inl (HTTPException 400 (Categoria_possui_transacoes tx_count)), db)
                 else
                   (case find_one (\<lambda>c. Some (cat_id c) = reassign_to
                                        \<and> cat_user_id c = current_user_id) (categories db) of
                      None \<Rightarrow>
                        (Inl (HTTPException 400 Categoria_de_reatribuicao_nao_encontrada), db)
                    | Some reassign_cat \<Rightarrow>
                        (Inr (),
                         db\<lparr> transactions :=
                               update_many
                                 (\<lambda>t. tx_category_id t = category_id
                                       \<and> tx_user_id t = current_user_id)
                                 (\<lambda>t. t\<lparr> tx_category_id := the reassign_to \<rparr>)
                                 (transactions db),
                             categories :=
                               delete_one (\<lambda>c. cat_id c = category_id) (categories db) \<rparr>)))
              else
                (Inr (),
                 db\<lparr> categories :=
                       delete_one (\<lambda>c. cat_id c = category_id) (categories db) \<rparr>)))"

subsection \<open>Python arithmetic and containers used by the reports\<close>

datatype py_error = ZeroDivisionError | ValueError | IndexError

definition thn :: "'e + 'a \<Rightarrow> ('a \<Rightarrow> 'e + 'b) \<Rightarrow> 'e + 'b" where
  "thn r f = (case r of Inl e \<Rightarrow> Inl e | Inr x \<Rightarrow> f x)"

text \<open>\<open>a / b\<close> raises ZeroDivisionError when \<open>b\<close> is zero.\<close>

definition py_div :: "rat \<Rightarrow> rat \<Rightarrow> py_error + rat" where
  "py_div a b = (if b = 0 then Inl ZeroDivisionError else Inr (a / b))"

text \<open>
  \<open>round(x, 2)\<close>: the nearest multiple of 1/100, ties to the even one (what Python
  computes on the exact value of \<open>x\<close>).
\<close>

definition round_half_even :: "rat \<Rightarrow> int" where
  "round_half_even x =
     (let f = \<lfloor>x\<rfloor>; d = x - of_int f
      in if d < 1 / 2 then f
         else if d > 1 / 2 then f + 1
         else if even f then f else f + 1)"

definition round2 :: "rat \<Rightarrow> rat" where
  "round2 x = of_int (round_half_even (x * 100)) / 100"

text \<open>
  A dict is an association list in insertion order with distinct keys; assigning to a
  key that is present keeps its position.
\<close>

fun dict_get :: "('k \<times> 'v) list \<Rightarrow> 'k \<Rightarrow> 'v \<Rightarrow> 'v" where
  "dict_get [] k dflt = dflt"
| "dict_get ((k', v) # d) k dflt = (if k' = k then v else dict_get d k dflt)"

fun dict_set :: "('k \<times> 'v) list \<Rightarrow> 'k \<Rightarrow> 'v \<Rightarrow> ('k \<times> 'v) list" where
  "dict_set [] k v = [(k, v)]"
| "dict_set ((k', v') # d) k v = (if k' = k then (k, v) # d else (k', v') # dict_set d k v)"

subsection \<open>Month boundaries in BRAZIL\_TZ, as ISO-8601 strings\<close>

text \<open>
  \<open>ZoneInfo("America/Bahia")\<close> is UTC-03:00 (no daylight saving time since 2012), which
  is the suffix \<open>isoformat()\<close> prints.
\<close>

definition BRAZIL_TZ_offset :: string where
  "BRAZIL_TZ_offset = ''-03:00''"

text \<open>
  The zero-padded decimal fields of \<open>isoformat()\<close>: four digits for the year (at most
  9999), two for every other field.
\<close>

definition digit :: "int \<Rightarrow> char" where
  "digit d = ''0123456789'' ! nat (d mod 10)"

definition zfill4 :: "int \<Rightarrow> string" where
  "zfill4 n = [digit (n div 1000), digit (n div 100), digit (n div 10), digit n]"

definition zfill2 :: "int \<Rightarrow> string" where
  "zfill2 n = [digit (n div 10), digit n]"

definition isoformat_local :: "int \<Rightarrow> int \<Rightarrow> int \<Rightarrow> int \<Rightarrow> int \<Rightarrow> int \<Rightarrow> string" where
  "isoformat_local y m d hh mm ss =
     zfill4 y @ ''-'' @ zfill2 m @ ''-'' @ zfill2 d @ ''T''
       @ zfill2 hh @ '':'' @ zfill2 mm @ '':'' @ zfill2 ss
       @ BRAZIL_TZ_offset"

definition is_leap :: "int \<Rightarrow> bool" where
  "is_leap y = (y mod 4 = 0 \<and> (y mod 100 \<noteq> 0 \<or> y mod 400 = 0))"

definition days_in_month :: "int \<Rightarrow> int \<Rightarrow> int" where
  "days_in_month y m =
     (if m = 2 then (if is_leap y then 29 else 28)
      else if m = 4 \<or> m = 6 \<or> m = 9 \<or> m = 11 then 30 else 31)"

text \<open>\<open>datetime(y, m, 1, tzinfo=BRAZIL_TZ)\<close> raises ValueError outside these ranges.\<close>

definition datetime_ok :: "int \<Rightarrow> int \<Rightarrow> bool" where
  "datetime_ok y m = (1 \<le> y \<and> y \<le> 9999 \<and> 1 \<le> m \<and> m \<le> 12)"

text \<open>
  The pattern of lines 975-979, 1000-1004, 1077-1082 and 1173-1177: the first instant of
  the month, and the first instant of the next month minus one second (wall-clock
  arithmetic: 23:59:59 on the last day of the month), both through \<open>isoformat()\<close>.
\<close>

definition month_range :: "int \<Rightarrow> int \<Rightarrow> py_error + (string \<times> string)" where
  "month_range y m =
     (if \<not> datetime_ok y m then Inl ValueError
      else if \<not> (if m = 12 then datetime_ok (y + 1) 1 else datetime_ok y (m + 1))
      then Inl ValueError
      else Inr (isoformat_local y m 1 0 0 0,
                isoformat_local y m (days_in_month y m) 23 59 59))"

subsection \<open>Aggregation shared by the two reports\<close>

text \<open>\<open>find({user_id, deleted_at: None, date: {$gte, $lte}}).to_list(limit)\<close>; dates compare as strings.\<close>

definition find_in_range ::
  "string \<Rightarrow> string \<Rightarrow> string \<Rightarrow> nat \<Rightarrow> transaction_doc list \<Rightarrow> transaction_doc list" where
  "find_in_range uid lo hi limit txs =
     take limit (filter (\<lambda>t. tx_user_id t = uid \<and> tx_deleted_at t = None
                              \<and> lo \<le> tx_date t \<and> tx_date t \<le> hi) txs)"

text \<open>\<open>sum(t["amount"] for t in txs if t["type"] == ty)\<close>\<close>

definition sum_amount :: "tx_type \<Rightarrow> transaction_doc list \<Rightarrow> rat" where
  "sum_amount ty txs = sum_list (map tx_amount (filter (\<lambda>t. tx_type t = ty) txs))"

definition expense_by_category :: "transaction_doc list \<Rightarrow> (string \<times> rat) list" where
  "expense_by_category txs =
     foldl (\<lambda>d t. if tx_type t = EXPENSE
                   then dict_set d (tx_category_id t) (dict_get d (tx_category_id t) 0 + tx_amount t)
                   else d) [] txs"

text \<open>
  \<open>cats = find({"id": {"$in": cat_ids}}).to_list(len(cat_ids))\<close>, then
  \<open>{c["id"]: c for c in cats}\<close>; skipped when \<open>cat_ids\<close> is empty.
\<close>

definition categories_by_id :: "string list \<Rightarrow> category_doc list \<Rightarrow> (string \<times> category_doc) list" where
  "categories_by_id cat_ids cats =
     (if cat_ids = [] then []
      else foldl (\<lambda>d c. dict_set d (cat_id c) c) []
             (take (length cat_ids) (filter (\<lambda>c. cat_id c \<in> set cat_ids) cats)))"

record category_amount =
  ca_category_id :: string
  ca_name :: string
  ca_color :: string
  ca_amount :: rat

definition category_rows ::
  "string \<Rightarrow> (string \<times> category_doc) list \<Rightarrow> (string \<times> rat) list \<Rightarrow> category_amount list" where
  "category_rows placeholder cats by_cat =
     map (\<lambda>(k, v).
            \<lparr> ca_category_id = k,
              ca_name = (case map_of cats k of Some c \<Rightarrow> cat_name c | None \<Rightarrow> placeholder),
              ca_color = (case map_of cats k of Some c \<Rightarrow> cat_color c | None \<Rightarrow> ''#71717a''),
              ca_amount = v \<rparr>) by_cat"

text \<open>
  \<open>daily_data\<close>: \<open>date[:10]\<close> \<open>\<mapsto>\<close> (income, expense); a transaction that is not INCOME
  counts as expense.
\<close>

definition daily_data :: "transaction_doc list \<Rightarrow> (string \<times> (rat \<times> rat)) list" where
  "daily_data txs =
     foldl (\<lambda>d t.
              let date_str = take 10 (tx_date t);
                  (i, e) = dict_get d date_str (0, 0)
              in if tx_type t = INCOME then dict_set d date_str (i + tx_amount t, e)
                 else dict_set d date_str (i, e + tx_amount t)) [] txs"

subsection \<open>GET /reports/monthly (lines 968-1066)\<close>





subsection \<open>GET /reports/dashboard (lines 1068-1240)\<close>

record daily_io =
  dio_date :: string
  dio_income :: rat
  dio_expense :: rat

record month_entry =
  me_month :: string
  me_year :: int
  me_income :: rat
  me_expense :: rat

text \<open>\<open>recent_transactions\<close> (lines 1190-1229) is left out: nothing below reads it.\<close>

record dashboard =
  d_current_balance :: rat
  d_total_income :: rat
  d_total_expense :: rat
  d_income_vs_expense_change :: rat
  d_expenses_by_category :: "category_amount list"
  d_income_vs_expense_daily :: "daily_io list"
  d_monthly_comparison :: "month_entry list"

text \<open>
  The environment of a dashboard request: the year and month of
  \<open>datetime.now(BRAZIL_TZ)\<close>, \<open>datetime.fromisoformat\<close> (None: it raises ValueError)
  and \<open>datetime.isoformat\<close>.
\<close>

record dash_env =
  now_year :: int
  now_month :: int
  fromisoformat :: "string \<Rightarrow> datetime option"
  isoformat :: "datetime \<Rightarrow> string"

text \<open>\<open>s.replace('Z', '+00:00')\<close>\<close>

definition replace_Z :: "string \<Rightarrow> string" where
  "replace_Z s = concat (map (\<lambda>c. if c = CHR ''Z'' then ''+00:00'' else [c]) s)"

definition parse_date :: "dash_env \<Rightarrow> string \<Rightarrow> py_error + datetime" where
  "parse_date env s =
     (case fromisoformat env (replace_Z s) of None \<Rightarrow> Inl ValueError | Some d \<Rightarrow> Inr d)"

text \<open>Lines 1108-1111.\<close>

definition period_days_of :: "datetime \<Rightarrow> datetime \<Rightarrow> int" where
  "period_days_of start_dt end_dt = days (end_dt - start_dt) + 1"

definition previous_period :: "datetime \<Rightarrow> datetime \<Rightarrow> datetime \<times> datetime" where
  "previous_period start_dt end_dt =
     (let period_days = period_days_of start_dt end_dt;
          prev_end = start_dt - timedelta_seconds 1;
          prev_start = prev_end - timedelta_days period_days
      in (prev_start, prev_end))"

text \<open>Lines 1125-1128.\<close>

definition income_vs_expense_change :: "rat \<Rightarrow> rat \<Rightarrow> py_error + rat" where
  "income_vs_expense_change prev_balance current_period_balance =
     (if prev_balance \<noteq> 0
      then thn (py_div (current_period_balance - prev_balance) \<bar>prev_balance\<bar>)
             (\<lambda>q. Inr (q * 100))
      else Inr (if current_period_balance > 0 then 100 else 0))"

text \<open>Lines 1167-1171: \<open>while m <= 0: m += 12; y -= 1\<close>.\<close>

function wrap_month :: "int \<Rightarrow> int \<Rightarrow> int \<times> int" where
  "wrap_month m y = (if m \<le> 0 then wrap_month (m + 12) (y - 1) else (m, y))"
  by pat_completeness auto
termination
  by (relation "measure (\<lambda>(m, y). nat (1 - m))") auto

definition month_names :: "string list" where
  "month_names = [''Jan'', ''Fev'', ''Mar'', ''Abr'', ''Mai'', ''Jun'',
                  ''Jul'', ''Ago'', ''Set'', ''Out'', ''Nov'', ''Dez'']"

text \<open>
  One iteration of the loop of lines 1166-1188. \<open>month_range\<close> has raised unless
  \<open>1 \<le> m \<le> 12\<close>, so \<open>month_names[m - 1]\<close> is in range.
\<close>

definition month_entry_of ::
  "int \<Rightarrow> int \<Rightarrow> transaction_doc list \<Rightarrow> int \<Rightarrow> py_error + month_entry" where
  "month_entry_of year month all_transactions i =
     (let (m, y) = wrap_month (month - i) year
      in thn (month_range y m) (\<lambda>(m_start, m_end).
           let m_income = sum_list (map tx_amount
                            (filter (\<lambda>t. tx_type t = INCOME
                                         \<and> m_start \<le> tx_date t \<and> tx_date t \<le> m_end)
                               all_transactions));
               m_expense = sum_list (map tx_amount
                            (filter (\<lambda>t. tx_type t = EXPENSE
                                         \<and> m_start \<le> tx_date t \<and> tx_date t \<le> m_end)
                               all_transactions))
           in Inr \<lparr> me_month = month_names ! nat (m - 1), me_year = y,
                    me_income = round2 m_income, me_expense = round2 m_expense \<rparr>))"

fun monthly_comparison_loop ::
  "int \<Rightarrow> int \<Rightarrow> transaction_doc list \<Rightarrow> int list \<Rightarrow> py_error + month_entry list" where
  "monthly_comparison_loop year month all_transactions [] = Inr []"
| "monthly_comparison_loop year month all_transactions (i # is) =
     thn (month_entry_of year month all_transactions i) (\<lambda>e.
       thn (monthly_comparison_loop year month all_transactions is) (\<lambda>es. Inr (e # es)))"

text \<open>\<open>for i in range(5, -1, -1)\<close>\<close>

definition monthly_comparison ::
  "int \<Rightarrow> int \<Rightarrow> transaction_doc list \<Rightarrow> py_error + month_entry list" where
  "monthly_comparison year month all_transactions =
     monthly_comparison_loop year month all_transactions [5, 4, 3, 2, 1, 0]"

text \<open>Lines 1085-1088: every non-deleted transaction of the user.\<close>

definition all_transactions_of :: "string \<Rightarrow> transaction_doc list \<Rightarrow> transaction_doc list" where
  "all_transactions_of uid txs =
     take 100000 (filter (\<lambda>t. tx_user_id t = uid \<and> tx_deleted_at t = None) txs)"

definition get_dashboard ::
  "dash_env \<Rightarrow> string option \<Rightarrow> string option \<Rightarrow> string \<Rightarrow> ledger_db \<Rightarrow> py_error + dashboard" where
  "get_dashboard env start_date_q end_date_q current_user_id db =
     thn (if falsy start_date_q
          then (if datetime_ok (now_year env) (now_month env)
                then Inr (isoformat_local (now_year env) (now_month env) 1 0 0 0)
                else Inl ValueError)
          else Inr (the start_date_q)) (\<lambda>start_date.
     thn (if falsy end_date_q
          then thn (month_range (now_year env) (now_month env)) (\<lambda>(s, e). Inr e)
          else Inr (the end_date_q)) (\<lambda>end_date.
       let all_transactions = all_transactions_of current_user_id (transactions db);
           current_balance = sum_amount INCOME all_transactions - sum_amount EXPENSE all_transactions;
           period_transactions =
             find_in_range current_user_id start_date end_date 10000 (transactions db);
           total_income = sum_amount INCOME period_transactions;
           total_expense = sum_amount EXPENSE period_transactions
       in thn (parse_date env start_date) (\<lambda>start_dt.
          thn (parse_date env end_date) (\<lambda>end_dt.
            let (prev_start, prev_end) = previous_period start_dt end_dt;
                prev_transactions =
                  find_in_range current_user_id (isoformat env prev_start) (isoformat env prev_end)
                    10000 (transactions db);
                prev_balance = sum_amount INCOME prev_transactions - sum_amount EXPENSE prev_transactions;
                current_period_balance = total_income - total_expense
            in thn (income_vs_expense_change prev_balance current_period_balance) (\<lambda>change.
                 let by_cat = expense_by_category period_transactions;
                     cats = categories_by_id (map fst by_cat) (categories db);
                     expenses_by_cat = category_rows ''Outros'' cats by_cat;
                     income_vs_expense_daily =
                       map (\<lambda>(k, (i, e)).
                              \<lparr> dio_date = k, dio_income = round2 i, dio_expense = round2 e \<rparr>)
                           (sort_key fst (daily_data period_transactions))
                 in thn (monthly_comparison (now_year env) (now_month env) all_transactions)
                      (\<lambda>monthly.
                         Inr \<lparr> d_current_balance = round2 current_balance,
                               d_total_income = round2 total_income,
                               d_total_expense = round2 total_expense,
                               d_income_vs_expense_change = round2 change,
                               d_expenses_by_category = expenses_by_cat,
                               d_income_vs_expense_daily = income_vs_expense_daily,
                               d_monthly_comparison = monthly \<rparr>))))))"

subsection \<open>Observations used to state the properties\<close>

text \<open>The stored failure count of an email; no entry counts as zero.\<close>

definition failure_count :: "login_attempts \<Rightarrow> string \<Rightarrow> int" where
  "failure_count la k = (case la k of None \<Rightarrow> 0 | Some (n, t) \<Rightarrow> n)"

text \<open>The handler answered with an HTTPException of the given status code.\<close>

definition is_status :: "nat \<Rightarrow> (http_error + 'a) \<Rightarrow> bool" where
  "is_status c r = (case r of Inl err \<Rightarrow> status_code err = c | Inr x \<Rightarrow> False)"




text \<open>The bounds of the selected period after the defaults of lines 1075-1082.\<close>

definition dashboard_start :: "dash_env \<Rightarrow> string option \<Rightarrow> string" where
  "dashboard_start env start_date_q =
     (if falsy start_date_q then isoformat_local (now_year env) (now_month env) 1 0 0 0
      else the start_date_q)"

definition dashboard_end :: "dash_env \<Rightarrow> string option \<Rightarrow> string" where
  "dashboard_end env end_date_q =
     (if falsy end_date_q
      then isoformat_local (now_year env) (now_month env)
             (days_in_month (now_year env) (now_month env)) 23 59 59
      else the end_date_q)"

text \<open>Income minus expense of the user's non-deleted transactions dated within the bounds.\<close>

definition period_balance :: "string \<Rightarrow> string \<Rightarrow> string \<Rightarrow> ledger_db \<Rightarrow> rat" where
  "period_balance uid lo hi db =
     sum_amount INCOME (find_in_range uid lo hi 10000 (transactions db))
       - sum_amount EXPENSE (find_in_range uid lo hi 10000 (transactions db))"

text \<open>The calendar month \<open>k\<close> months before (month, year), as (month, year).\<close>

definition months_before :: "int \<Rightarrow> int \<Rightarrow> int \<Rightarrow> int \<times> int" where
  "months_before year month k =
     (let idx = year * 12 + (month - 1) - k in (idx mod 12 + 1, idx div 12))"

text \<open>
  What an entry of \<open>monthly_comparison\<close> is to carry for the calendar month (m, y): the
  abbreviated name, the year, and the rounded income and expense totals of the given
  transactions dated within the month's boundaries.
\<close>

definition month_summary :: "transaction_doc list \<Rightarrow> int \<times> int \<Rightarrow> month_entry" where
  "month_summary txs my =
     (let (m, y) = my;
          lo = isoformat_local y m 1 0 0 0;
          hi = isoformat_local y m (days_in_month y m) 23 59 59
      in \<lparr> me_month = month_names ! nat (m - 1), me_year = y,
           me_income = round2 (sum_list (map tx_amount
                         (filter (\<lambda>t. tx_type t = INCOME \<and> lo \<le> tx_date t \<and> tx_date t \<le> hi) txs))),
           me_expense = round2 (sum_list (map tx_amount
                         (filter (\<lambda>t. tx_type t = EXPENSE \<and> lo \<le> tx_date t \<and> tx_date t \<le> hi) txs))) \<rparr>)"

subsection \<open>Example data\<close>

definition example_user :: user_doc where
  "example_user =
     \<lparr> user_id_of = ''u1'', user_email = ''ana@example.com'', user_name = ''Ana'',
       user_password = ''hash-of-Secret123'', user_theme = None,
       user_created_at = ''2024-01-01T12:00:00+00:00'' \<rparr>"

definition example_auth_db :: auth_db where
  "example_auth_db = \<lparr> users = [example_user], refresh_tokens = [] \<rparr>"

definition example_env :: "int \<Rightarrow> string \<Rightarrow> request_env" where
  "example_env minute tok =
     \<lparr> verify = (\<lambda>pw h. h = ''hash-of-'' @ pw),
       jwt_decode = (\<lambda>t. if take 3 t = ''rt-'' then Payload (Some ''refresh'') (Some ''u1'')
                           else InvalidTokenError),
       now_check = timedelta_minutes minute,
       now_record = timedelta_minutes minute,
       now_handler = timedelta_minutes minute,
       new_access_token = ''at-'' @ tok,
       new_refresh_token = ''rt-'' @ tok,
       new_uuid = ''id-'' @ tok \<rparr>"

definition example_failed_logins :: "(request_env \<times> string \<times> string) list" where
  "example_failed_logins =
     [(example_env 1 ''a'', ''Ana@Example.com'', ''wrong''),
      (example_env 2 ''b'', ''ana@example.com'', ''wrong''),
      (example_env 3 ''c'', ''ANA@example.com'', ''wrong''),
      (example_env 4 ''d'', ''ana@example.com'', ''Wrong'')]"

definition example_tx ::
  "string \<Rightarrow> tx_type \<Rightarrow> rat \<Rightarrow> string \<Rightarrow> string \<Rightarrow> string option \<Rightarrow> transaction_doc" where
  "example_tx i ty amount date cat deleted =
     \<lparr> tx_id = i, tx_user_id = ''u1'', tx_type = ty, tx_description = ''example'',
       tx_amount = amount, tx_date = date, tx_category_id = cat,
       tx_payment_method = None, tx_notes = None,
       tx_created_at = date, tx_updated_at = date, tx_deleted_at = deleted \<rparr>"

definition example_categories :: "category_doc list" where
  "example_categories =
     [\<lparr> cat_id = ''c1'', cat_user_id = ''u1'', cat_name = ''Lazer'', cat_color = ''#14b8a6'' \<rparr>,
      \<lparr> cat_id = ''c2'', cat_user_id = ''u1'', cat_name = ''Outros'', cat_color = ''#71717a'' \<rparr>]"

definition example_ledger :: ledger_db where
  "example_ledger =
     \<lparr> categories = example_categories,
       transactions =
         [example_tx ''t1'' EXPENSE 10 ''2024-03-05T10:00:00+00:00'' ''c1'' None,
          example_tx ''t2'' EXPENSE 20 ''2024-03-06T10:00:00+00:00'' ''c1''
            (Some ''2024-03-07T08:00:00+00:00''),
          example_tx ''t3'' INCOME 30 ''2024-03-08T10:00:00+00:00'' ''c2'' None] \<rparr>"

definition example_stale_db :: auth_db where
  "example_stale_db =
     \<lparr> users = [],
       refresh_tokens =
         [\<lparr> rt_id = ''id-0'', rt_user_id = ''u1'', rt_token = ''rt-0'',
            rt_created_at = 0, rt_expires_at = timedelta_days 7 \<rparr>] \<rparr>"

definition example_session_db :: auth_db where
  "example_session_db = example_stale_db \<lparr> users := [example_user] \<rparr>"

text \<open>
  A ledger of user u1 with income 100 and expense 200 in February 2024, income 150 and
  expense 100 in March 2024, and a soft-deleted income in March; and the same ledger with
  one more March expense of 0.125.
\<close>

definition example_report_ledger :: ledger_db where
  "example_report_ledger =
     \<lparr> categories = example_categories,
       transactions =
         [example_tx ''f1'' INCOME 100 ''2024-02-05T09:00:00-03:00'' ''c2'' None,
          example_tx ''f2'' EXPENSE 200 ''2024-02-10T12:00:00-03:00'' ''c1'' None,
          example_tx ''m1'' INCOME 150 ''2024-03-10T12:00:00-03:00'' ''c2'' None,
          example_tx ''m2'' EXPENSE 100 ''2024-03-11T18:30:00-03:00'' ''c1'' None,
          example_tx ''d1'' INCOME 1000 ''2024-03-12T08:00:00-03:00'' ''c2''
            (Some ''2024-03-13T08:00:00+00:00'')] \<rparr>"

definition example_fraction_ledger :: ledger_db where
  "example_fraction_ledger =
     example_report_ledger
       \<lparr> transactions := transactions example_report_ledger @
            [example_tx ''m3'' EXPENSE (1 / 8) ''2024-03-11T20:00:00-03:00'' ''c2'' None] \<rparr>"

text \<open>
  The values of \<open>fromisoformat\<close> and \<open>isoformat\<close> at the instants of the example:
  March 2024 in UTC-03:00 and the comparison period the dashboard derives from it.
\<close>

definition example_instants :: "(string \<times> datetime) list" where
  "example_instants =
     [(''2024-03-01T00:00:00-03:00'', 1709262000000000),
      (''2024-03-31T23:59:59-03:00'', 1711940399000000),
      (''2024-01-29T23:59:59-03:00'', 1706583599000000),
      (''2024-02-29T23:59:59-03:00'', 1709261999000000)]"

definition example_dash_env :: dash_env where
  "example_dash_env =
     \<lparr> now_year = 2024, now_month = 3,
       fromisoformat = map_of example_instants,
       isoformat = (\<lambda>t. case find_one (\<lambda>p. snd p = t) example_instants of
                           Some p \<Rightarrow> fst p | None \<Rightarrow> []) \<rparr>"

section \<open>Properties\<close>

subsection \<open>Login rate limiting\<close>

lemma check_rate_limit_iff:
  "check_rate_limit now k la \<longleftrightarrow>
     \<not> (\<exists>n t. la k = Some (n, t) \<and> 5 \<le> n \<and> now - t < timedelta_minutes 15)"
  by (auto simp: check_rate_limit_def split: option.splits)

lemma login_blocked:
  "\<not> check_rate_limit (now_check env) (lower e) la \<Longrightarrow>
     login env e p (la, db) = (Inl (HTTPException 429 Muitas_tentativas), (la, db))"
  by (simp add: login_def)

lemma login_allowed:
  "check_rate_limit (now_check env) (lower e) la \<Longrightarrow>
     (\<exists>resp db'. login env e p (la, db) =
         (Inr resp, (record_login_attempt (now_record env) (lower e) True la, db')))
     \<or> login env e p (la, db) =
         (Inl (HTTPException 401 Email_ou_senha_incorretos),
          (record_login_attempt (now_record env) (lower e) False la, db))"
  by (simp add: login_def Let_def split: option.splits)

lemma is_status_login_429:
  "is_status 429 (fst (login env e p (la, db))) \<longleftrightarrow>
     \<not> check_rate_limit (now_check env) (lower e) la"
proof (cases "check_rate_limit (now_check env) (lower e) la")
  case True
  from login_allowed [OF True, of p db] show ?thesis
    using True by (auto simp: is_status_def)
next
  case False
  then show ?thesis by (simp add: login_blocked is_status_def)
qed

lemma record_failure:
  "record_login_attempt now k False la k = Some (failure_count la k + 1, now)"
  by (simp add: record_login_attempt_def failure_count_def split: option.splits)

lemma record_failure_other:
  "k' \<noteq> k \<Longrightarrow> record_login_attempt now k s la k' = la k'"
  by (simp add: record_login_attempt_def split: option.splits)

lemma record_success:
  "record_login_attempt now k True la k = None"
  by (simp add: record_login_attempt_def)

lemma login_401:
  assumes "is_status 401 (fst (login env e p (la, db)))"
  shows "login env e p (la, db) =
           (Inl (HTTPException 401 Email_ou_senha_incorretos),
            (record_login_attempt (now_record env) (lower e) False la, db))"
proof (cases "check_rate_limit (now_check env) (lower e) la")
  case True
  from login_allowed [OF True, of p db] assms show ?thesis
    by (auto simp: is_status_def)
next
  case False
  with assms show ?thesis by (simp add: login_blocked is_status_def)
qed

lemma logins_all_failed:
  assumes "logins reqs (la, db) = (rs, st')"
    and "\<forall>r \<in> set rs. is_status 401 r"
    and "\<forall>q \<in> set reqs. lower (fst (snd q)) = k"
  shows "failure_count (fst st') k = failure_count la k + int (length reqs)
         \<and> (reqs \<noteq> [] \<longrightarrow>
              fst st' k = Some (failure_count la k + int (length reqs),
                                now_record (fst (last reqs))))
         \<and> snd st' = db"
  using assms
proof (induction reqs arbitrary: la rs st')
  case Nil
  then show ?case by auto
next
  case (Cons q reqs)
  obtain env e p where q: "q = (env, e, p)" by (cases q) auto
  obtain r st1 where l1: "login env e p (la, db) = (r, st1)" by (cases "login env e p (la, db)") auto
  obtain rs1 st2 where l2: "logins reqs st1 = (rs1, st2)" by (cases "logins reqs st1") auto
  from Cons.prems(1) q l1 l2 have rs: "rs = r # rs1" and st: "st' = st2" by auto
  from Cons.prems(2) rs have r401: "is_status 401 r" and rest401: "\<forall>r \<in> set rs1. is_status 401 r"
    by auto
  from Cons.prems(3) q have ek: "lower e = k" and restk: "\<forall>q \<in> set reqs. lower (fst (snd q)) = k"
    by auto
  from login_401 [of env e p la db] r401 l1
  have st1: "st1 = (record_login_attempt (now_record env) k False la, db)"
    by (simp add: ek)
  let ?la1 = "record_login_attempt (now_record env) k False la"
  have c1: "?la1 k = Some (failure_count la k + 1, now_record env)"
    by (rule record_failure)
  then have f1: "failure_count ?la1 k = failure_count la k + 1"
    by (simp add: failure_count_def)
  from Cons.IH [of ?la1 rs1 st2] l2 st1 rest401 restk
  have ih: "failure_count (fst st2) k = failure_count ?la1 k + int (length reqs)
         \<and> (reqs \<noteq> [] \<longrightarrow>
              fst st2 k = Some (failure_count ?la1 k + int (length reqs),
                                now_record (fst (last reqs))))
         \<and> snd st2 = db" by simp
  show ?case
  proof (cases "reqs = []")
    case True
    with l2 st1 have "st2 = (?la1, db)" by simp
    with True c1 f1 st q show ?thesis by simp
  next
    case False
    with ih f1 st q show ?thesis by simp
  qed
qed

lemma login_not_success_monotone:
  assumes "(\<forall>resp. fst (login env e p (la, db)) \<noteq> Inr resp) \<or> k' \<noteq> lower e"
  shows "failure_count la k' \<le> failure_count (fst (snd (login env e p (la, db)))) k'"
proof (cases "check_rate_limit (now_check env) (lower e) la")
  case False
  then show ?thesis by (simp add: login_blocked)
next
  case True
  from login_allowed [OF True, of p db] show ?thesis
  proof
    assume "\<exists>resp db'. login env e p (la, db) =
         (Inr resp, (record_login_attempt (now_record env) (lower e) True la, db'))"
    then obtain resp db' where l: "login env e p (la, db) =
         (Inr resp, (record_login_attempt (now_record env) (lower e) True la, db'))" by blast
    with assms have "k' \<noteq> lower e" by auto
    with l show ?thesis by (simp add: failure_count_def record_failure_other)
  next
    assume l: "login env e p (la, db) =
         (Inl (HTTPException 401 Email_ou_senha_incorretos),
          (record_login_attempt (now_record env) (lower e) False la, db))"
    show ?thesis
    proof (cases "k' = lower e")
      case True
      with l show ?thesis by (simp add: failure_count_def record_failure)
    next
      case False
      with l show ?thesis by (simp add: failure_count_def record_failure_other)
    qed
  qed
qed

lemma login_success_clears:
  assumes "fst (login env e p (la, db)) = Inr resp"
  shows "fst (snd (login env e p (la, db))) (lower e) = None"
proof (cases "check_rate_limit (now_check env) (lower e) la")
  case False
  with assms show ?thesis by (simp add: login_blocked)
next
  case True
  from login_allowed [OF True, of p db] assms show ?thesis
    by (auto simp: record_success)
qed

text \<open>
  Claim C3. A login attempt is answered 429 exactly when the stored failure count of the
  (lower-cased) email is at least 5 and the last recorded failure is less than 15
  minutes before the check. Five logins in a row that fail with 401 for one email block
  the next attempt made within 15 minutes of the fifth. A successful login removes the
  entry of the email, so its count is zero again.
\<close>

theorem login_rate_limit:
  "(is_status 429 (fst (login env e p (la, db)))
      \<longleftrightarrow> (\<exists>n t. la (lower e) = Some (n, t) \<and> 5 \<le> n
                  \<and> now_check env - t < timedelta_minutes 15))
   \<and> (0 \<le> failure_count la (lower e) \<and> length reqs = 5
        \<and> (\<forall>q \<in> set reqs. lower (fst (snd q)) = lower e)
        \<and> logins reqs (la, db) = (rs, st') \<and> (\<forall>r \<in> set rs. is_status 401 r)
        \<and> now_check env - now_record (fst (last reqs)) < timedelta_minutes 15
      \<longrightarrow> is_status 429 (fst (login env e p st')))
   \<and> (fst (login env e p (la, db)) = Inr resp
      \<longrightarrow> fst (snd (login env e p (la, db))) (lower e) = None
          \<and> failure_count (fst (snd (login env e p (la, db)))) (lower e) = 0)"
proof (intro conjI impI)
  show "is_status 429 (fst (login env e p (la, db)))
      \<longleftrightarrow> (\<exists>n t. la (lower e) = Some (n, t) \<and> 5 \<le> n
                  \<and> now_check env - t < timedelta_minutes 15)"
    by (auto simp: is_status_login_429 check_rate_limit_iff)
next
  assume h: "0 \<le> failure_count la (lower e) \<and> length reqs = 5
        \<and> (\<forall>q \<in> set reqs. lower (fst (snd q)) = lower e)
        \<and> logins reqs (la, db) = (rs, st') \<and> (\<forall>r \<in> set rs. is_status 401 r)
        \<and> now_check env - now_record (fst (last reqs)) < timedelta_minutes 15"
  then have ne: "reqs \<noteq> []" by auto
  from h logins_all_failed [of reqs la db rs st' "lower e"] ne
  have stored: "fst st' (lower e) =
      Some (failure_count la (lower e) + 5, now_record (fst (last reqs)))"
    by simp
  obtain la' db' where st: "st' = (la', db')" by (cases st') auto
  from stored st h have "\<not> check_rate_limit (now_check env) (lower e) la'"
    by (simp add: check_rate_limit_iff)
  then show "is_status 429 (fst (login env e p st'))"
    by (simp add: st is_status_login_429)
next
  assume s: "fst (login env e p (la, db)) = Inr resp"
  then show "fst (snd (login env e p (la, db))) (lower e) = None"
    by (rule login_success_clears)
  then show "failure_count (fst (snd (login env e p (la, db)))) (lower e) = 0"
    by (simp add: failure_count_def)
qed

text \<open>
  Claim C4. A failed attempt stores the previous count plus one with the current time,
  whatever the age of the previous failure; no login other than a successful one for the
  same email lowers a stored count; and four failures, a pause of more than 15 minutes
  and a fifth failure leave the count at 5 with a fresh timestamp, so that the next
  attempt within 15 minutes is answered 429.
\<close>

theorem failure_count_monotone:
  "failure_count (record_login_attempt now k False la) k = failure_count la k + 1
   \<and> record_login_attempt now k False la k = Some (failure_count la k + 1, now)
   \<and> ((\<forall>resp. fst (login env e p (la, db)) \<noteq> Inr resp) \<or> k' \<noteq> lower e
        \<longrightarrow> failure_count la k' \<le> failure_count (fst (snd (login env e p (la, db)))) k')
   \<and> (la k = None \<and> length reqs = 4 \<and> (\<forall>q \<in> set (reqs @ [q5]). lower (fst (snd q)) = k)
        \<and> logins (reqs @ [q5]) (la, db) = (rs, st') \<and> (\<forall>r \<in> set rs. is_status 401 r)
        \<and> now_check (fst q5) - now_record (fst (last reqs)) > timedelta_minutes 15
        \<and> lower e6 = k \<and> now_check env6 - now_record (fst q5) < timedelta_minutes 15
      \<longrightarrow> fst st' k = Some (5, now_record (fst q5))
          \<and> is_status 429 (fst (login env6 e6 p6 st')))"
proof (intro conjI impI)
  show c: "record_login_attempt now k False la k = Some (failure_count la k + 1, now)"
    by (rule record_failure)
  then show "failure_count (record_login_attempt now k False la) k = failure_count la k + 1"
    by (simp add: failure_count_def)
next
  assume "(\<forall>resp. fst (login env e p (la, db)) \<noteq> Inr resp) \<or> k' \<noteq> lower e"
  then show "failure_count la k' \<le> failure_count (fst (snd (login env e p (la, db)))) k'"
    by (rule login_not_success_monotone)
next
  assume h: "la k = None \<and> length reqs = 4 \<and> (\<forall>q \<in> set (reqs @ [q5]). lower (fst (snd q)) = k)
        \<and> logins (reqs @ [q5]) (la, db) = (rs, st') \<and> (\<forall>r \<in> set rs. is_status 401 r)
        \<and> now_check (fst q5) - now_record (fst (last reqs)) > timedelta_minutes 15
        \<and> lower e6 = k \<and> now_check env6 - now_record (fst q5) < timedelta_minutes 15"
  then have z: "failure_count la k = 0" by (simp add: failure_count_def)
  from h logins_all_failed [of "reqs @ [q5]" la db rs st' k] z
  show stored: "fst st' k = Some (5, now_record (fst q5))" by simp
  obtain la' db' where st: "st' = (la', db')" by (cases st') auto
  from stored st h have "\<not> check_rate_limit (now_check env6) (lower e6) la'"
    by (simp add: check_rate_limit_iff)
  then show "is_status 429 (fst (login env6 e6 p6 st'))"
    by (simp add: st is_status_login_429)
qed

lemma lower_ex1: "lower ''Ana@Example.com'' = ''ana@example.com''"
  by code_simp

lemma example_env_sel:
  "now_check (example_env m tok) = timedelta_minutes m"
  "now_record (example_env m tok) = timedelta_minutes m"
  by (simp_all add: example_env_def)

text \<open>
  The three parts of C3 on the example account: a stored count of 5 one minute old, five
  wrong passwords at minutes 1 to 5 followed by an attempt at minute 19, and a successful
  login over a stored count of 3.
\<close>

theorem login_rate_limit_witness:
  "is_status 429 (fst (login (example_env 10 ''x'') ''Ana@Example.com'' ''Secret123''
       ([''ana@example.com'' \<mapsto> (5, timedelta_minutes 1)], example_auth_db)))
   \<and> is_status 429 (fst (login (example_env 19 ''f'') ''Ana@Example.com'' ''Secret123''
       (snd (logins (example_failed_logins @ [(example_env 5 ''e'', ''ana@example.com'', ''nope'')])
              (Map.empty, example_auth_db)))))
   \<and> fst (snd (login (example_env 10 ''x'') ''Ana@Example.com'' ''Secret123''
       ([''ana@example.com'' \<mapsto> (3, timedelta_minutes 1)], example_auth_db)))
        ''ana@example.com'' = None"
proof (intro conjI)
  let ?e = "''Ana@Example.com''"
  have lo: "lower ?e = ''ana@example.com''" by code_simp
  have "\<exists>n t. [''ana@example.com'' \<mapsto> (5::int, timedelta_minutes 1)] (lower ?e) = Some (n, t) \<and> 5 \<le> n
           \<and> now_check (example_env 10 ''x'') - t < timedelta_minutes 15"
    by (simp add: lo example_env_sel timedelta_minutes_def timedelta_seconds_def)
  then show "is_status 429 (fst (login (example_env 10 ''x'') ?e ''Secret123''
       ([''ana@example.com'' \<mapsto> (5, timedelta_minutes 1)], example_auth_db)))"
    using login_rate_limit [where env = "example_env 10 ''x''" and e = ?e and p = "''Secret123''"
        and la = "[''ana@example.com'' \<mapsto> (5, timedelta_minutes 1)]" and db = example_auth_db]
    by blast
next
  let ?e = "''Ana@Example.com''"
  let ?reqs = "example_failed_logins @ [(example_env 5 ''e'', ''ana@example.com'', ''nope'')]"
  let ?out = "logins ?reqs (Map.empty, example_auth_db)"
  have h1: "0 \<le> failure_count Map.empty (lower ?e)" by (simp add: failure_count_def)
  have h2: "length ?reqs = 5" by (simp add: example_failed_logins_def)
  have h3: "\<forall>q \<in> set ?reqs. lower (fst (snd q)) = lower ?e" by code_simp
  have h4: "?out = (fst ?out, snd ?out)" by simp
  have h5: "\<forall>r \<in> set (fst ?out). is_status 401 r" by code_simp
  have h6: "now_check (example_env 19 ''f'') - now_record (fst (last ?reqs)) < timedelta_minutes 15"
    by code_simp
  show "is_status 429 (fst (login (example_env 19 ''f'') ?e ''Secret123'' (snd ?out)))"
    using login_rate_limit [where env = "example_env 19 ''f''" and e = ?e and la = Map.empty
        and db = example_auth_db and reqs = ?reqs and rs = "fst ?out" and st' = "snd ?out"
        and p = "''Secret123''"] h1 h2 h3 h4 h5 h6
    by blast
next
  let ?e = "''Ana@Example.com''"
  let ?la = "[''ana@example.com'' \<mapsto> (3::int, timedelta_minutes 1)]"
  have ok: "\<exists>resp. fst (login (example_env 10 ''x'') ?e ''Secret123'' (?la, example_auth_db)) = Inr resp"
    by (simp add: login_def check_rate_limit_def example_env_def example_auth_db_def
          example_user_def find_one_def lower_ex1 Let_def)
  then obtain resp where
    "fst (login (example_env 10 ''x'') ?e ''Secret123'' (?la, example_auth_db)) = Inr resp" ..
  then have "fst (snd (login (example_env 10 ''x'') ?e ''Secret123'' (?la, example_auth_db)))
        (lower ?e) = None"
    using login_rate_limit [where env = "example_env 10 ''x''" and e = ?e and p = "''Secret123''"
        and la = ?la and db = example_auth_db and resp = resp]
    by blast
  then show "fst (snd (login (example_env 10 ''x'') ?e ''Secret123'' (?la, example_auth_db)))
        ''ana@example.com'' = None"
    by (simp add: lower_ex1)
qed

text \<open>
  C4 on the example account: failures at minutes 1 to 4, a fifth at minute 25, and the
  attempt with the right password at minute 30.
\<close>

theorem failure_count_monotone_witness:
  "failure_count (record_login_attempt (timedelta_minutes 60) ''ana@example.com'' False
       [''ana@example.com'' \<mapsto> (4, timedelta_minutes 4)]) ''ana@example.com'' = 5
   \<and> failure_count [''ana@example.com'' \<mapsto> (4, timedelta_minutes 4)] ''ana@example.com''
       \<le> failure_count (fst (snd (login (example_env 60 ''x'') ''Ana@Example.com'' ''wrong''
            ([''ana@example.com'' \<mapsto> (4, timedelta_minutes 4)], example_auth_db))))
            ''ana@example.com''
   \<and> fst (snd (logins (example_failed_logins @ [(example_env 25 ''e'', ''ana@example.com'', ''nope'')])
              (Map.empty, example_auth_db))) ''ana@example.com''
       = Some (5, timedelta_minutes 25)
   \<and> is_status 429 (fst (login (example_env 30 ''f'') ''Ana@Example.com'' ''Secret123''
       (snd (logins (example_failed_logins @ [(example_env 25 ''e'', ''ana@example.com'', ''nope'')])
              (Map.empty, example_auth_db)))))"
proof -
  let ?k = "''ana@example.com''"
  let ?e = "''Ana@Example.com''"
  let ?la = "[?k \<mapsto> (4::int, timedelta_minutes 4)]"
  let ?q5 = "(example_env 25 ''e'', ''ana@example.com'', ''nope'')"
  let ?out = "logins (example_failed_logins @ [?q5]) (Map.empty, example_auth_db)"
  have a: "failure_count (record_login_attempt (timedelta_minutes 60) ?k False ?la) ?k = 5"
    using failure_count_monotone [where now = "timedelta_minutes 60" and k = ?k and la = ?la]
    by (simp add: failure_count_def)
  have f: "\<forall>resp. fst (login (example_env 60 ''x'') ?e ''wrong'' (?la, example_auth_db)) \<noteq> Inr resp"
    by (simp add: login_def check_rate_limit_def example_env_def example_auth_db_def
          example_user_def find_one_def lower_ex1 Let_def)
  have b: "failure_count ?la ?k
       \<le> failure_count (fst (snd (login (example_env 60 ''x'') ?e ''wrong''
            (?la, example_auth_db)))) ?k"
    using failure_count_monotone [where la = ?la and env = "example_env 60 ''x''" and e = ?e
        and p = "''wrong''" and db = example_auth_db and k' = ?k] f
    by blast
  have h1: "Map.empty ?k = (None :: (int \<times> datetime) option)" by simp
  have h2: "length example_failed_logins = 4" by (simp add: example_failed_logins_def)
  have h3: "\<forall>q \<in> set (example_failed_logins @ [?q5]). lower (fst (snd q)) = ?k" by code_simp
  have h4: "?out = (fst ?out, snd ?out)" by simp
  have h5: "\<forall>r \<in> set (fst ?out). is_status 401 r" by code_simp
  have h6: "now_check (fst ?q5) - now_record (fst (last example_failed_logins))
               > timedelta_minutes 15" by code_simp
  have h7: "lower ?e = ?k" by code_simp
  have h8: "now_check (example_env 30 ''f'') - now_record (fst ?q5) < timedelta_minutes 15"
    by code_simp
  have c: "fst (snd ?out) ?k = Some (5, now_record (fst ?q5))
          \<and> is_status 429 (fst (login (example_env 30 ''f'') ?e ''Secret123'' (snd ?out)))"
    using failure_count_monotone [where k = ?k and la = Map.empty and db = example_auth_db
        and reqs = example_failed_logins and ?q5.0 = ?q5 and rs = "fst ?out" and st' = "snd ?out"
        and ?e6.0 = ?e and ?env6.0 = "example_env 30 ''f''" and ?p6.0 = "''Secret123''"]
      h1 h2 h3 h4 h5 h6 h7 h8
    by blast
  from a b c show ?thesis by (simp add: example_env_sel)
qed

subsection \<open>Refresh-token rotation and category deletion\<close>

lemma find_one_None: "find_one p xs = None \<longleftrightarrow> (\<forall>x \<in> set xs. \<not> p x)"
  by (auto simp: find_one_def find_None_iff)

lemma find_one_Some: "find_one p xs = Some x \<Longrightarrow> x \<in> set xs \<and> p x"
  by (auto simp: find_one_def find_Some_iff)

lemma set_delete_one: "set (delete_one p xs) \<subseteq> set xs"
  by (induction xs) auto

lemma delete_one_distinct:
  "distinct (map f xs) \<Longrightarrow> \<forall>x \<in> set (delete_one (\<lambda>r. f r = v) xs). f x \<noteq> v"
proof (induction xs)
  case Nil
  then show ?case by simp
next
  case (Cons a xs)
  show ?case
  proof (cases "f a = v")
    case True
    with Cons.prems show ?thesis by (auto simp: image_iff)
  next
    case False
    with Cons show ?thesis by simp
  qed
qed

lemma distinct_delete_one:
  "distinct (map f xs) \<Longrightarrow> distinct (map f (delete_one p xs))"
proof (induction xs)
  case Nil
  then show ?case by simp
next
  case (Cons a xs)
  then show ?case using set_delete_one [of p xs] by (auto simp: image_iff)
qed

lemma length_delete_one:
  "\<exists>x \<in> set xs. p x \<Longrightarrow> length (delete_one p xs) + 1 = length xs"
  by (induction xs) auto

lemma refresh_token_unknown:
  assumes "\<forall>r \<in> set (refresh_tokens db). rt_token r \<noteq> tok"
  shows "is_status 401 (fst (refresh_token env tok db)) \<and> snd (refresh_token env tok db) = db"
proof -
  have "find_one (\<lambda>r. rt_token r = tok \<and> rt_user_id r = uid) (refresh_tokens db) = None" for uid
    using assms by (simp add: find_one_None)
  then show ?thesis
    by (simp add: refresh_token_def is_status_def split: jwt_result.splits option.splits)
qed

lemma refresh_token_unknown_detail:
  assumes "\<forall>r \<in> set (refresh_tokens db). rt_token r \<noteq> tok"
    and "jwt_decode env tok = Payload (Some ''refresh'') sub"
  shows "refresh_token env tok db = (Inl (HTTPException 401 Token_invalido_ou_revogado), db)"
proof -
  have "find_one (\<lambda>r. rt_token r = tok \<and> rt_user_id r = uid) (refresh_tokens db) = None" for uid
    using assms(1) by (simp add: find_one_None)
  with assms(2) show ?thesis
    by (simp add: refresh_token_def split: option.splits)
qed

lemma refresh_token_success:
  assumes "refresh_token env tok db = (Inr resp, db')"
  shows "\<exists>uid stored user.
           jwt_decode env tok = Payload (Some ''refresh'') (Some uid)
         \<and> find_one (\<lambda>r. rt_token r = tok \<and> rt_user_id r = uid) (refresh_tokens db) = Some stored
         \<and> find_one (\<lambda>u. user_id_of u = uid) (users db) = Some user
         \<and> refresh_token_of resp = new_refresh_token env
         \<and> users db' = users db
         \<and> refresh_tokens db' =
             insert_one \<lparr> rt_id = new_uuid env, rt_user_id = uid,
                          rt_token = new_refresh_token env,
                          rt_created_at = now_handler env,
                          rt_expires_at = now_handler env
                            + timedelta_days REFRESH_TOKEN_EXPIRE_DAYS \<rparr>
               (delete_one (\<lambda>r. rt_token r = tok) (refresh_tokens db))"
  using assms
  by (auto simp: refresh_token_def Let_def split: jwt_result.splits option.splits if_splits)

text \<open>
  Claim C2. Issued refresh tokens are unique strings (each carries a fresh uuid4), so the
  stored documents have distinct tokens and the token issued by a refresh differs from
  the one presented. Then a successful refresh removes the stored document of the
  presented token and inserts one for the new token, and presenting the old token again
  is answered 401 whatever the environment of the second request; while the token still
  decodes as before, the reason is that no stored document matches.
\<close>

theorem refresh_token_single_use:
  assumes "distinct (map rt_token (refresh_tokens db))"
    and "new_refresh_token env \<noteq> tok"
    and "refresh_token env tok db = (Inr resp, db')"
  shows "(\<exists>stored \<in> set (refresh_tokens db). rt_token stored = tok)
       \<and> (\<forall>r \<in> set (refresh_tokens db'). rt_token r \<noteq> tok)
       \<and> (\<exists>r \<in> set (refresh_tokens db'). rt_token r = new_refresh_token env
              \<and> rt_token r = refresh_token_of resp
              \<and> jwt_decode env tok = Payload (Some ''refresh'') (Some (rt_user_id r)))
       \<and> length (refresh_tokens db') = length (refresh_tokens db)
       \<and> (\<forall>env2. is_status 401 (fst (refresh_token env2 tok db'))
                \<and> snd (refresh_token env2 tok db') = db')
       \<and> (\<forall>env2. jwt_decode env2 tok = jwt_decode env tok \<longrightarrow>
             refresh_token env2 tok db' =
               (Inl (HTTPException 401 Token_invalido_ou_revogado), db'))"
proof -
  from refresh_token_success [OF assms(3)] obtain uid stored user where
    dec: "jwt_decode env tok = Payload (Some ''refresh'') (Some uid)"
    and st: "find_one (\<lambda>r. rt_token r = tok \<and> rt_user_id r = uid) (refresh_tokens db) = Some stored"
    and resp: "refresh_token_of resp = new_refresh_token env"
    and toks: "refresh_tokens db' =
             insert_one \<lparr> rt_id = new_uuid env, rt_user_id = uid,
                          rt_token = new_refresh_token env,
                          rt_created_at = now_handler env,
                          rt_expires_at = now_handler env
                            + timedelta_days REFRESH_TOKEN_EXPIRE_DAYS \<rparr>
               (delete_one (\<lambda>r. rt_token r = tok) (refresh_tokens db))"
    by blast
  from find_one_Some [OF st] have mem: "stored \<in> set (refresh_tokens db)" and tk: "rt_token stored = tok"
    by auto
  have gone: "\<forall>r \<in> set (refresh_tokens db'). rt_token r \<noteq> tok"
    using delete_one_distinct [OF assms(1), of tok] assms(2)
    by (auto simp: toks insert_one_def)
  have len: "length (refresh_tokens db') = length (refresh_tokens db)"
    using length_delete_one [of "refresh_tokens db" "\<lambda>r. rt_token r = tok"] mem tk
    by (auto simp: toks insert_one_def)
  have new: "\<exists>r \<in> set (refresh_tokens db'). rt_token r = new_refresh_token env
              \<and> rt_token r = refresh_token_of resp
              \<and> jwt_decode env tok = Payload (Some ''refresh'') (Some (rt_user_id r))"
    by (simp add: toks insert_one_def resp dec)
  have again: "\<forall>env2. is_status 401 (fst (refresh_token env2 tok db'))
                \<and> snd (refresh_token env2 tok db') = db'"
    using refresh_token_unknown [OF gone] by blast
  have detail: "\<forall>env2. jwt_decode env2 tok = jwt_decode env tok \<longrightarrow>
             refresh_token env2 tok db' =
               (Inl (HTTPException 401 Token_invalido_ou_revogado), db')"
    using refresh_token_unknown_detail [OF gone] dec by simp
  from mem tk gone new len again detail show ?thesis by blast
qed

text \<open>
  Claim C9. When the presented token decodes as a refresh token, a stored document
  matches it, and no user document has the id of its subject, the handler answers 401
  (user not found) after the delete: the stored document is gone, one document fewer is
  stored, and no new one was inserted.
\<close>

theorem refresh_token_consumed_without_user:
  assumes "jwt_decode env tok = Payload (Some ''refresh'') (Some uid)"
    and "find_one (\<lambda>r. rt_token r = tok \<and> rt_user_id r = uid) (refresh_tokens db) = Some stored"
    and "find_one (\<lambda>u. user_id_of u = uid) (users db) = None"
  shows "refresh_token env tok db =
           (Inl (HTTPException 401 Usuario_nao_encontrado),
            db\<lparr> refresh_tokens := delete_one (\<lambda>r. rt_token r = tok) (refresh_tokens db) \<rparr>)
       \<and> length (refresh_tokens (snd (refresh_token env tok db))) + 1 = length (refresh_tokens db)
       \<and> (distinct (map rt_token (refresh_tokens db)) \<longrightarrow>
            (\<forall>r \<in> set (refresh_tokens (snd (refresh_token env tok db))). rt_token r \<noteq> tok))
       \<and> (\<forall>r \<in> set (refresh_tokens (snd (refresh_token env tok db))). r \<in> set (refresh_tokens db))"
proof -
  have r: "refresh_token env tok db =
           (Inl (HTTPException 401 Usuario_nao_encontrado),
            db\<lparr> refresh_tokens := delete_one (\<lambda>r. rt_token r = tok) (refresh_tokens db) \<rparr>)"
    using assms by (simp add: refresh_token_def Let_def)
  from find_one_Some [OF assms(2)] have "\<exists>x \<in> set (refresh_tokens db). rt_token x = tok"
    by auto
  from length_delete_one [OF this] have l:
    "length (delete_one (\<lambda>r. rt_token r = tok) (refresh_tokens db)) + 1 = length (refresh_tokens db)" .
  show ?thesis
    using l delete_one_distinct [of rt_token "refresh_tokens db" tok]
      set_delete_one [of "\<lambda>r. rt_token r = tok" "refresh_tokens db"]
    by (auto simp: r)
qed

text \<open>Distinct stored tokens are an invariant of the rotation when new tokens are fresh.\<close>

lemma refresh_token_keeps_distinct:
  assumes "distinct (map rt_token (refresh_tokens db))"
    and "\<forall>r \<in> set (refresh_tokens db). rt_token r \<noteq> new_refresh_token env"
  shows "distinct (map rt_token (refresh_tokens (snd (refresh_token env tok db))))"
proof -
  let ?d = "delete_one (\<lambda>r. rt_token r = tok) (refresh_tokens db)"
  have d: "distinct (map rt_token ?d)" using assms(1) by (rule distinct_delete_one)
  have n: "\<forall>r \<in> set ?d. rt_token r \<noteq> new_refresh_token env"
    using assms(2) set_delete_one [of "\<lambda>r. rt_token r = tok" "refresh_tokens db"] by blast
  from assms(1) d n show ?thesis
    by (auto simp: refresh_token_def Let_def insert_one_def image_iff
          split: jwt_result.splits option.splits)
qed

text \<open>C2 on the example session: token rt-0 is rotated to rt-1, then presented again.\<close>

theorem refresh_token_single_use_witness:
  "(\<exists>resp. fst (refresh_token (example_env 10 ''1'') ''rt-0'' example_session_db) = Inr resp)
   \<and> map rt_token (refresh_tokens (snd (refresh_token (example_env 10 ''1'') ''rt-0''
          example_session_db))) = [''rt-1'']
   \<and> refresh_token (example_env 11 ''2'') ''rt-0''
          (snd (refresh_token (example_env 10 ''1'') ''rt-0'' example_session_db))
       = (Inl (HTTPException 401 Token_invalido_ou_revogado),
          snd (refresh_token (example_env 10 ''1'') ''rt-0'' example_session_db))"
proof -
  let ?env = "example_env 10 ''1''"
  let ?out = "refresh_token ?env ''rt-0'' example_session_db"
  have ex: "\<exists>resp. fst ?out = Inr resp"
    by (simp add: refresh_token_def example_env_def example_session_db_def example_stale_db_def
          example_user_def find_one_def Let_def)
  then obtain resp where "fst ?out = Inr resp" ..
  then have h3: "?out = (Inr resp, snd ?out)" by (metis prod.collapse)
  have h1: "distinct (map rt_token (refresh_tokens example_session_db))"
    by (simp add: example_session_db_def example_stale_db_def)
  have h2: "new_refresh_token ?env \<noteq> ''rt-0''" by (simp add: example_env_def)
  have toks: "map rt_token (refresh_tokens (snd ?out)) = [''rt-1'']"
    by (simp add: refresh_token_def example_env_def example_session_db_def example_stale_db_def
          example_user_def find_one_def Let_def insert_one_def)
  have same: "jwt_decode (example_env 11 ''2'') ''rt-0'' = jwt_decode ?env ''rt-0''"
    by (simp add: example_env_def)
  from refresh_token_single_use [OF h1 h2 h3] same
  have "refresh_token (example_env 11 ''2'') ''rt-0'' (snd ?out)
       = (Inl (HTTPException 401 Token_invalido_ou_revogado), snd ?out)"
    by blast
  with ex toks show ?thesis by blast
qed

text \<open>C9 on a store that holds a token of a user who no longer exists.\<close>

theorem refresh_token_consumed_without_user_witness:
  "refresh_token (example_env 10 ''1'') ''rt-0'' example_stale_db
     = (Inl (HTTPException 401 Usuario_nao_encontrado), \<lparr> users = [], refresh_tokens = [] \<rparr>)"
proof -
  let ?env = "example_env 10 ''1''"
  have h1: "jwt_decode ?env ''rt-0'' = Payload (Some ''refresh'') (Some ''u1'')"
    by (simp add: example_env_def)
  have h2: "find_one (\<lambda>r. rt_token r = ''rt-0'' \<and> rt_user_id r = ''u1'')
              (refresh_tokens example_stale_db)
            = Some \<lparr> rt_id = ''id-0'', rt_user_id = ''u1'', rt_token = ''rt-0'',
                     rt_created_at = 0, rt_expires_at = timedelta_days 7 \<rparr>"
    by (simp add: example_stale_db_def find_one_def)
  have h3: "find_one (\<lambda>u. user_id_of u = ''u1'') (users example_stale_db) = None"
    by (simp add: example_stale_db_def find_one_def)
  from refresh_token_consumed_without_user [OF h1 h2 h3]
  show ?thesis by (simp add: example_stale_db_def)
qed

lemma count_documents_pos: "count_documents p xs > 0 \<longleftrightarrow> (\<exists>x \<in> set xs. p x)"
  by (auto simp: count_documents_def filter_empty_conv)

text \<open>
  Claim C10. When the deletion succeeds and a non-deleted transaction of the user
  referenced the category, a target was given and every transaction of the user that
  referenced the category now references the target, soft-deleted ones included, with
  no other field and no other transaction changed. The count that demands a target looks
  at non-deleted transactions only: when only soft-deleted ones reference the category it
  is deleted without a target and they keep their reference, and the 400 answer reports
  the number of non-deleted ones.
\<close>

theorem delete_category_reassigns_soft_deleted:
  "(delete_category cid reassign uid db = (Inr (), db')
      \<and> (\<exists>t \<in> set (transactions db).
            tx_category_id t = cid \<and> tx_user_id t = uid \<and> tx_deleted_at t = None)
    \<longrightarrow> (\<exists>target. reassign = Some target
          \<and> transactions db' =
              map (\<lambda>t. if tx_category_id t = cid \<and> tx_user_id t = uid
                        then t\<lparr> tx_category_id := target \<rparr> else t) (transactions db)
          \<and> (\<forall>t \<in> set (transactions db).
                tx_category_id t = cid \<and> tx_user_id t = uid \<and> tx_deleted_at t \<noteq> None
                \<longrightarrow> t\<lparr> tx_category_id := target \<rparr> \<in> set (transactions db'))))
   \<and> (find_one (\<lambda>c. cat_id c = cid \<and> cat_user_id c = uid) (categories db) = Some cat
      \<and> (\<forall>t \<in> set (transactions db).
            tx_category_id t = cid \<and> tx_user_id t = uid \<longrightarrow> tx_deleted_at t \<noteq> None)
    \<longrightarrow> delete_category cid reassign uid db =
          (Inr (), db\<lparr> categories := delete_one (\<lambda>c. cat_id c = cid) (categories db) \<rparr>))
   \<and> (find_one (\<lambda>c. cat_id c = cid \<and> cat_user_id c = uid) (categories db) = Some cat
      \<and> falsy reassign
      \<and> (\<exists>t \<in> set (transactions db).
            tx_category_id t = cid \<and> tx_user_id t = uid \<and> tx_deleted_at t = None)
    \<longrightarrow> delete_category cid reassign uid db =
          (Inl (HTTPException 400 (Categoria_possui_transacoes
                 (int (length (filter (\<lambda>t. tx_category_id t = cid \<and> tx_user_id t = uid
                                          \<and> tx_deleted_at t = None) (transactions db)))))), db))"
proof (intro conjI impI)
  let ?live = "\<lambda>t. tx_category_id t = cid \<and> tx_user_id t = uid \<and> tx_deleted_at t = None"
  assume h: "delete_category cid reassign uid db = (Inr (), db')
      \<and> (\<exists>t \<in> set (transactions db). ?live t)"
  then have pos: "count_documents ?live (transactions db) > 0"
    by (simp add: count_documents_pos)
  from h pos obtain target where t: "reassign = Some target"
    and tx: "transactions db' =
              map (\<lambda>t. if tx_category_id t = cid \<and> tx_user_id t = uid
                        then t\<lparr> tx_category_id := target \<rparr> else t) (transactions db)"
    by (auto simp: delete_category_def Let_def update_many_def falsy_def
          split: option.splits if_splits)
  have "\<forall>t \<in> set (transactions db).
                tx_category_id t = cid \<and> tx_user_id t = uid \<and> tx_deleted_at t \<noteq> None
                \<longrightarrow> t\<lparr> tx_category_id := target \<rparr> \<in> set (transactions db')"
    by (auto simp: tx image_iff)
  with t tx show "\<exists>target. reassign = Some target
          \<and> transactions db' =
              map (\<lambda>t. if tx_category_id t = cid \<and> tx_user_id t = uid
                        then t\<lparr> tx_category_id := target \<rparr> else t) (transactions db)
          \<and> (\<forall>t \<in> set (transactions db).
                tx_category_id t = cid \<and> tx_user_id t = uid \<and> tx_deleted_at t \<noteq> None
                \<longrightarrow> t\<lparr> tx_category_id := target \<rparr> \<in> set (transactions db'))"
    by blast
next
  let ?live = "\<lambda>t. tx_category_id t = cid \<and> tx_user_id t = uid \<and> tx_deleted_at t = None"
  assume h: "find_one (\<lambda>c. cat_id c = cid \<and> cat_user_id c = uid) (categories db) = Some cat
      \<and> (\<forall>t \<in> set (transactions db).
            tx_category_id t = cid \<and> tx_user_id t = uid \<longrightarrow> tx_deleted_at t \<noteq> None)"
  then have "\<not> count_documents ?live (transactions db) > 0"
    by (simp only: count_documents_pos) blast
  with h show "delete_category cid reassign uid db =
          (Inr (), db\<lparr> categories := delete_one (\<lambda>c. cat_id c = cid) (categories db) \<rparr>)"
    by (simp add: delete_category_def Let_def)
next
  let ?live = "\<lambda>t. tx_category_id t = cid \<and> tx_user_id t = uid \<and> tx_deleted_at t = None"
  assume h: "find_one (\<lambda>c. cat_id c = cid \<and> cat_user_id c = uid) (categories db) = Some cat
      \<and> falsy reassign \<and> (\<exists>t \<in> set (transactions db). ?live t)"
  then have "count_documents ?live (transactions db) > 0"
    by (simp add: count_documents_pos)
  with h show "delete_category cid reassign uid db =
          (Inl (HTTPException 400 (Categoria_possui_transacoes
                 (int (length (filter ?live (transactions db)))))), db)"
    by (simp add: delete_category_def Let_def count_documents_def)
qed

lemmas example_ledger_defs =
  example_ledger_def example_categories_def example_tx_def

text \<open>
  C10 on the example ledger, where t1 (live) and t2 (soft-deleted) reference c1: both
  move to c2; without t1 the category goes without a target; with t1 and no target the
  answer is 400 with a count of 1.
\<close>

theorem delete_category_reassigns_soft_deleted_witness:
  "map (\<lambda>t. (tx_id t, tx_category_id t, tx_deleted_at t))
     (transactions (snd (delete_category ''c1'' (Some ''c2'') ''u1'' example_ledger)))
     = [(''t1'', ''c2'', None),
        (''t2'', ''c2'', Some ''2024-03-07T08:00:00+00:00''),
        (''t3'', ''c2'', None)]
   \<and> delete_category ''c1'' None ''u1''
        (example_ledger\<lparr> transactions := tl (transactions example_ledger) \<rparr>)
       = (Inr (), \<lparr> categories = tl example_categories,
                    transactions = tl (transactions example_ledger) \<rparr>)
   \<and> delete_category ''c1'' None ''u1'' example_ledger
       = (Inl (HTTPException 400 (Categoria_possui_transacoes 1)), example_ledger)"
proof (intro conjI)
  let ?out = "delete_category ''c1'' (Some ''c2'') ''u1'' example_ledger"
  have "fst ?out = Inr ()"
    by (simp add: delete_category_def example_ledger_defs find_one_def count_documents_def
          falsy_def Let_def)
  then have h1: "?out = (Inr (), snd ?out)" by (metis prod.collapse)
  have h2: "\<exists>t \<in> set (transactions example_ledger).
              tx_category_id t = ''c1'' \<and> tx_user_id t = ''u1'' \<and> tx_deleted_at t = None"
    by (simp add: example_ledger_defs)
  from delete_category_reassigns_soft_deleted
         [where cid = "''c1''" and reassign = "Some ''c2''" and uid = "''u1''"
            and db = example_ledger and db' = "snd ?out"] h1 h2
  have "transactions (snd ?out) =
          map (\<lambda>t. if tx_category_id t = ''c1'' \<and> tx_user_id t = ''u1''
                    then t\<lparr> tx_category_id := ''c2'' \<rparr> else t) (transactions example_ledger)"
    by blast
  then show "map (\<lambda>t. (tx_id t, tx_category_id t, tx_deleted_at t)) (transactions (snd ?out))
     = [(''t1'', ''c2'', None),
        (''t2'', ''c2'', Some ''2024-03-07T08:00:00+00:00''),
        (''t3'', ''c2'', None)]"
    by (simp add: example_ledger_defs)
next
  let ?db = "example_ledger\<lparr> transactions := tl (transactions example_ledger) \<rparr>"
  have h1: "find_one (\<lambda>c. cat_id c = ''c1'' \<and> cat_user_id c = ''u1'') (categories ?db)
            = Some (hd example_categories)"
    by (simp add: example_ledger_defs find_one_def)
  have h2: "\<forall>t \<in> set (transactions ?db).
              tx_category_id t = ''c1'' \<and> tx_user_id t = ''u1'' \<longrightarrow> tx_deleted_at t \<noteq> None"
    by (simp add: example_ledger_defs)
  from delete_category_reassigns_soft_deleted
         [where cid = "''c1''" and reassign = None and uid = "''u1''" and db = ?db
            and cat = "hd example_categories"] h1 h2
  have "delete_category ''c1'' None ''u1'' ?db =
          (Inr (), ?db\<lparr> categories := delete_one (\<lambda>c. cat_id c = ''c1'') (categories ?db) \<rparr>)"
    by blast
  then show "delete_category ''c1'' None ''u1'' ?db
       = (Inr (), \<lparr> categories = tl example_categories,
                    transactions = tl (transactions example_ledger) \<rparr>)"
    by (simp add: example_ledger_defs)
next
  have h1: "find_one (\<lambda>c. cat_id c = ''c1'' \<and> cat_user_id c = ''u1'') (categories example_ledger)
            = Some (hd example_categories)"
    by (simp add: example_ledger_defs find_one_def)
  have h2: "falsy None" by (simp add: falsy_def)
  have h3: "\<exists>t \<in> set (transactions example_ledger).
              tx_category_id t = ''c1'' \<and> tx_user_id t = ''u1'' \<and> tx_deleted_at t = None"
    by (simp add: example_ledger_defs)
  from delete_category_reassigns_soft_deleted
         [where cid = "''c1''" and reassign = None and uid = "''u1''" and db = example_ledger
            and cat = "hd example_categories"] h1 h2 h3
  have "delete_category ''c1'' None ''u1'' example_ledger =
          (Inl (HTTPException 400 (Categoria_possui_transacoes
                 (int (length (filter (\<lambda>t. tx_category_id t = ''c1'' \<and> tx_user_id t = ''u1''
                                          \<and> tx_deleted_at t = None)
                          (transactions example_ledger)))))), example_ledger)"
    by blast
  then show "delete_category ''c1'' None ''u1'' example_ledger
       = (Inl (HTTPException 400 (Categoria_possui_transacoes 1)), example_ledger)"
    by (simp add: example_ledger_defs)
qed

subsection \<open>Monthly report\<close>

lemma thn_Inr [simp]: "thn (Inr x) f = f x"
  by (simp add: thn_def)

lemma thn_Inl [simp]: "thn (Inl e) f = Inl e"
  by (simp add: thn_def)

lemma thn_eq_Inr: "thn r f = Inr y \<longleftrightarrow> (\<exists>x. r = Inr x \<and> f x = Inr y)"
  by (cases r) auto

lemma month_range_valid:
  assumes "1 \<le> m" "m \<le> 12" "1 \<le> y" "y \<le> 9998"
  shows "month_range y m =
           Inr (isoformat_local y m 1 0 0 0, isoformat_local y m (days_in_month y m) 23 59 59)"
  using assms by (simp add: month_range_def datetime_ok_def)




lemmas iso_defs =
  isoformat_local_def zfill4_def zfill2_def digit_def days_in_month_def is_leap_def
  BRAZIL_TZ_offset_def

lemmas example_report_defs =
  example_report_ledger_def example_fraction_ledger_def example_categories_def example_tx_def



lemma round2_examples:
  "round2 50 = 50" "round2 (- 50) = - 50" "round2 150 = 150"
  "round2 (1 / 8) = 3 / 25" "round2 (801 / 8) = 2503 / 25"
  by code_simp+












lemma round2_more:
  "round2 (399 / 8) = 1247 / 25" "round2 100 = 100"
  by code_simp+




subsection \<open>Dashboard\<close>

lemma income_vs_expense_change_eq:
  "income_vs_expense_change prev cur =
     Inr (if prev \<noteq> 0 then (cur - prev) / \<bar>prev\<bar> * 100 else if cur > 0 then 100 else 0)"
  by (simp add: income_vs_expense_change_def py_div_def)

lemma month_range_Inr:
  "month_range y m = Inr (lo, hi) \<Longrightarrow>
     lo = isoformat_local y m 1 0 0 0 \<and> hi = isoformat_local y m (days_in_month y m) 23 59 59"
  by (auto simp: month_range_def split: if_splits)

lemma get_dashboard_Inr:
  assumes "get_dashboard env s e uid db = Inr d"
  shows "\<exists>start_dt end_dt c monthly.
           parse_date env (dashboard_start env s) = Inr start_dt
         \<and> parse_date env (dashboard_end env e) = Inr end_dt
         \<and> income_vs_expense_change
              (period_balance uid (isoformat env (fst (previous_period start_dt end_dt)))
                 (isoformat env (snd (previous_period start_dt end_dt))) db)
              (period_balance uid (dashboard_start env s) (dashboard_end env e) db) = Inr c
         \<and> d_income_vs_expense_change d = round2 c
         \<and> monthly_comparison (now_year env) (now_month env)
              (all_transactions_of uid (transactions db)) = Inr monthly
         \<and> d_monthly_comparison d = monthly"
proof -
  from assms obtain start_date where
    sd: "(if falsy s
          then (if datetime_ok (now_year env) (now_month env)
                then Inr (isoformat_local (now_year env) (now_month env) 1 0 0 0)
                else Inl ValueError)
          else Inr (the s)) = Inr start_date"
    unfolding get_dashboard_def thn_eq_Inr by blast
  then have sd': "start_date = dashboard_start env s"
    by (auto simp: dashboard_start_def split: if_splits)
  from assms sd obtain end_date where
    ed: "(if falsy e
          then thn (month_range (now_year env) (now_month env)) (\<lambda>(s, e). Inr e)
          else Inr (the e)) = Inr end_date"
    unfolding get_dashboard_def thn_eq_Inr by auto
  then have ed': "end_date = dashboard_end env e"
    by (auto simp: dashboard_end_def thn_eq_Inr dest: month_range_Inr split: if_splits)
  from assms show ?thesis
    unfolding get_dashboard_def sd ed
    by (auto simp: thn_eq_Inr Let_def period_balance_def sd' ed' case_prod_beta)
qed

declare wrap_month.simps [simp del]

lemma div_mod_12:
  fixes a r :: int
  assumes "0 \<le> r" "r < 12"
  shows "(a * 12 + r) div 12 = a" "(a * 12 + r) mod 12 = r"
  using assms by simp_all

lemma months_before_cases:
  assumes "1 \<le> month" "month \<le> 12" "0 \<le> i" "i \<le> 5"
  shows "months_before year month i =
           (if month - i \<le> 0 then (month - i + 12, year - 1) else (month - i, year))"
proof (cases "month - i \<le> 0")
  case True
  have e: "year * 12 + (month - 1) - i = (year - 1) * 12 + (month - i + 11)" by simp
  have r: "0 \<le> month - i + 11" "month - i + 11 < 12" using True assms by simp_all
  show ?thesis
    using True unfolding months_before_def Let_def e div_mod_12 [OF r] by simp
next
  case False
  have e: "year * 12 + (month - 1) - i = year * 12 + (month - i - 1)" by simp
  have r: "0 \<le> month - i - 1" "month - i - 1 < 12" using False assms by simp_all
  show ?thesis
    using False unfolding months_before_def Let_def e div_mod_12 [OF r] by simp
qed

lemma wrap_month_eq:
  assumes "1 \<le> month" "month \<le> 12" "0 \<le> i" "i \<le> 5"
  shows "wrap_month (month - i) year = months_before year month i"
proof (cases "month - i \<le> 0")
  case True
  with assms have pos: "\<not> month - i + 12 \<le> 0" by simp
  have "wrap_month (month - i) year = wrap_month (month - i + 12) (year - 1)"
    using True by (subst wrap_month.simps) simp
  also have "\<dots> = (month - i + 12, year - 1)"
    using pos by (subst wrap_month.simps) simp
  finally show ?thesis using True by (simp add: months_before_cases [OF assms])
next
  case False
  have "wrap_month (month - i) year = (month - i, year)"
    using False by (subst wrap_month.simps) simp
  then show ?thesis using False by (simp add: months_before_cases [OF assms])
qed

lemma months_before_range:
  assumes "1 \<le> month" "month \<le> 12" "0 \<le> i" "i \<le> 5" "2 \<le> year" "year \<le> 9998"
    and "months_before year month i = (m, y)"
  shows "1 \<le> m \<and> m \<le> 12 \<and> 1 \<le> y \<and> y \<le> 9998"
  using assms(5-7) assms(1-4) unfolding months_before_cases [OF assms(1-4)]
  by (auto split: if_splits)

lemma month_entry_of_eq:
  assumes "1 \<le> month" "month \<le> 12" "0 \<le> i" "i \<le> 5" "2 \<le> year" "year \<le> 9998"
  shows "month_entry_of year month txs i = Inr (month_summary txs (months_before year month i))"
proof -
  obtain m y where my: "months_before year month i = (m, y)"
    by (cases "months_before year month i") auto
  from months_before_range [OF assms my]
  have r: "month_range y m =
           Inr (isoformat_local y m 1 0 0 0, isoformat_local y m (days_in_month y m) 23 59 59)"
    by (simp add: month_range_valid)
  show ?thesis
    by (simp add: month_entry_of_def wrap_month_eq [OF assms(1-4)] my r month_summary_def Let_def)
qed

lemma monthly_comparison_eq:
  assumes "1 \<le> month" "month \<le> 12" "2 \<le> year" "year \<le> 9998"
  shows "monthly_comparison year month txs =
           Inr (map (\<lambda>k. month_summary txs (months_before year month k)) [5, 4, 3, 2, 1, 0])"
  using assms by (simp add: monthly_comparison_def month_entry_of_eq)

lemma monthly_comparison_loop_length:
  "monthly_comparison_loop year month txs is = Inr es \<Longrightarrow> length es = length is"
  by (induction "is" arbitrary: es) (auto simp: thn_eq_Inr)

lemma get_dashboard_valid:
  assumes "1 \<le> now_month env" "now_month env \<le> 12" "2 \<le> now_year env" "now_year env \<le> 9998"
    and ps: "parse_date env (dashboard_start env s) = Inr start_dt"
    and pe: "parse_date env (dashboard_end env e) = Inr end_dt"
  shows "\<exists>d. get_dashboard env s e uid db = Inr d"
proof -
  have sd: "(if falsy s
          then (if datetime_ok (now_year env) (now_month env)
                then Inr (isoformat_local (now_year env) (now_month env) 1 0 0 0)
                else Inl ValueError)
          else Inr (the s)) = (Inr (dashboard_start env s) :: py_error + string)"
    using assms(1-4) by (simp add: dashboard_start_def datetime_ok_def)
  have ed: "(if falsy e
          then thn (month_range (now_year env) (now_month env)) (\<lambda>(s, e). Inr e)
          else Inr (the e)) = (Inr (dashboard_end env e) :: py_error + string)"
    using assms(1-4) by (simp add: dashboard_end_def month_range_valid)
  show ?thesis
    unfolding get_dashboard_def sd ed
    by (simp add: ps pe Let_def case_prod_beta income_vs_expense_change_eq
          monthly_comparison_eq [OF assms(1-4)])
qed


text \<open>
  The comparison period of lines 1108-1111 ends one second before the selected period
  starts and is exactly \<open>period_days\<close> days long, which is always longer than the
  selected span; counted the way the handler counts the selected period, it has one day
  more.
\<close>

lemma previous_period_general:
  "snd (previous_period start_dt end_dt) = start_dt - timedelta_seconds 1
   \<and> snd (previous_period start_dt end_dt) - fst (previous_period start_dt end_dt)
       = timedelta_days (period_days_of start_dt end_dt)
   \<and> end_dt - start_dt
       < snd (previous_period start_dt end_dt) - fst (previous_period start_dt end_dt)
   \<and> period_days_of (fst (previous_period start_dt end_dt)) (snd (previous_period start_dt end_dt))
       = period_days_of start_dt end_dt + 1"
proof -
  let ?D = "86400000000 :: int"
  let ?x = "end_dt - start_dt"
  have D: "timedelta_days n = n * ?D" for n
    by (simp add: timedelta_days_def timedelta_seconds_def)
  have lt: "?x < (?x div ?D + 1) * ?D"
  proof -
    have "?x = ?x div ?D * ?D + ?x mod ?D" by simp
    moreover have "?x mod ?D < ?D" by simp
    ultimately show ?thesis by (simp add: algebra_simps)
  qed
  have dv: "((?x div ?D + 1) * ?D) div ?D = ?x div ?D + 1" by simp
  show ?thesis
    using lt dv
    by (simp add: previous_period_def period_days_of_def days_def D Let_def)
qed

lemmas example_dash_defs = example_dash_env_def example_instants_def find_one_def

lemma example_parse:
  "parse_date example_dash_env (dashboard_start example_dash_env None) = Inr 1709262000000000"
  "parse_date example_dash_env (dashboard_end example_dash_env None) = Inr 1711940399000000"
  by (simp_all add: parse_date_def dashboard_start_def dashboard_end_def falsy_def replace_Z_def
        example_dash_defs iso_defs)

lemma example_bounds:
  "dashboard_start example_dash_env None = ''2024-03-01T00:00:00-03:00''"
  "dashboard_end example_dash_env None = ''2024-03-31T23:59:59-03:00''"
  by (simp_all add: dashboard_start_def dashboard_end_def falsy_def example_dash_defs iso_defs)

lemma example_previous_period:
  "previous_period 1709262000000000 1711940399000000 = (1706583599000000, 1709261999000000)"
  by (simp add: previous_period_def period_days_of_def days_def timedelta_days_def
        timedelta_seconds_def Let_def)

lemma example_isoformat:
  "isoformat example_dash_env 1706583599000000 = ''2024-01-29T23:59:59-03:00''"
  "isoformat example_dash_env 1709261999000000 = ''2024-02-29T23:59:59-03:00''"
  by (simp_all add: example_dash_defs)


lemma example_now:
  "1 \<le> now_month example_dash_env" "now_month example_dash_env \<le> 12"
  "2 \<le> now_year example_dash_env" "now_year example_dash_env \<le> 9998"
  by (simp_all add: example_dash_env_def)



text \<open>
  Claim C7 on the default request of March 2024 (2024-03-01T00:00:00-03:00 to
  2024-03-31T23:59:59-03:00). The handler queries the comparison period from
  2024-01-29T23:59:59-03:00 to 2024-02-29T23:59:59-03:00, both bounds included: it ends
  one second before March starts, but it is 31 days long where the selected span is 31
  days less one second, and by the handler's own count it has 32 days against 31.
\<close>

theorem previous_period_march_2024:
  "parse_date example_dash_env ''2024-03-01T00:00:00-03:00'' = Inr 1709262000000000
   \<and> parse_date example_dash_env ''2024-03-31T23:59:59-03:00'' = Inr 1711940399000000
   \<and> previous_period 1709262000000000 1711940399000000 = (1706583599000000, 1709261999000000)
   \<and> isoformat example_dash_env 1706583599000000 = ''2024-01-29T23:59:59-03:00''
   \<and> isoformat example_dash_env 1709261999000000 = ''2024-02-29T23:59:59-03:00''
   \<and> period_days_of 1709262000000000 1711940399000000 = 31
   \<and> period_days_of 1706583599000000 1709261999000000 = 32
   \<and> 1711940399000000 - 1709262000000000 = timedelta_days 31 - timedelta_seconds 1
   \<and> 1709261999000000 - 1706583599000000 = timedelta_days 31"
  using example_parse
  by (simp add: example_bounds example_previous_period example_isoformat period_days_of_def
        days_def timedelta_days_def timedelta_seconds_def)

lemma months_before_step:
  assumes "1 \<le> month" "month \<le> 12" "0 \<le> k" "k \<le> 4"
    and a: "months_before year month (k + 1) = (m, y)"
    and b: "months_before year month k = (m', y')"
  shows "1 \<le> m \<and> m \<le> 12 \<and> y' * 12 + m' = y * 12 + m + 1"
proof -
  have k1: "0 \<le> k + 1" "k + 1 \<le> 5" and k0: "0 \<le> k" "k \<le> 5" using assms(3,4) by simp_all
  from a b show ?thesis
    unfolding months_before_cases [OF assms(1,2) k1] months_before_cases [OF assms(1,2) k0]
    using assms(1-4) by (auto split: if_splits)
qed

lemma all_transactions_of_all:
  "length (filter (\<lambda>t. tx_user_id t = uid \<and> tx_deleted_at t = None) txs) \<le> 100000 \<Longrightarrow>
     all_transactions_of uid txs = filter (\<lambda>t. tx_user_id t = uid \<and> tx_deleted_at t = None) txs"
  by (simp add: all_transactions_of_def)

text \<open>
  Claim C8. For a valid current date, every dashboard response carries exactly six
  monthly entries: for k = 5 down to 0, the month k months before the current one, so the
  last entry is the current month and each entry is the calendar month right after the
  one before it. Each entry carries the month's abbreviated name, its year, and the
  rounded income and expense totals of the user's non-deleted transactions (all of them,
  up to the fetch limit of 100000) dated within that month's boundaries. The entries do
  not depend on the selected period.
\<close>

theorem dashboard_monthly_comparison:
  assumes "1 \<le> now_month env" "now_month env \<le> 12" "2 \<le> now_year env" "now_year env \<le> 9998"
    and "get_dashboard env s e uid db = Inr d"
  shows "length (d_monthly_comparison d) = 6
     \<and> d_monthly_comparison d =
         map (\<lambda>k. month_summary (all_transactions_of uid (transactions db))
                     (months_before (now_year env) (now_month env) k)) [5, 4, 3, 2, 1, 0]
     \<and> months_before (now_year env) (now_month env) 0 = (now_month env, now_year env)
     \<and> (\<forall>k m y m' y'. 0 \<le> k \<and> k \<le> 4
            \<and> months_before (now_year env) (now_month env) (k + 1) = (m, y)
            \<and> months_before (now_year env) (now_month env) k = (m', y')
          \<longrightarrow> 1 \<le> m \<and> m \<le> 12 \<and> y' * 12 + m' = y * 12 + m + 1)
     \<and> (\<forall>s' e' d'. get_dashboard env s' e' uid db = Inr d'
          \<longrightarrow> d_monthly_comparison d' = d_monthly_comparison d)
     \<and> (length (filter (\<lambda>t. tx_user_id t = uid \<and> tx_deleted_at t = None) (transactions db))
           \<le> 100000
          \<longrightarrow> all_transactions_of uid (transactions db)
              = filter (\<lambda>t. tx_user_id t = uid \<and> tx_deleted_at t = None) (transactions db))"
proof -
  let ?txs = "all_transactions_of uid (transactions db)"
  let ?expected = "map (\<lambda>k. month_summary ?txs (months_before (now_year env) (now_month env) k))
                     [5, 4, 3, 2, 1, 0]"
  have mc: "monthly_comparison (now_year env) (now_month env) ?txs = Inr ?expected"
    by (rule monthly_comparison_eq [OF assms(1-4)])
  have any: "d_monthly_comparison d' = ?expected"
    if "get_dashboard env s' e' uid db = Inr d'" for s' e' d'
    using get_dashboard_Inr [OF that] mc by auto
  have eq: "d_monthly_comparison d = ?expected" using any [OF assms(5)] .
  have len: "length (d_monthly_comparison d) = 6" unfolding eq by simp
  have zero: "months_before (now_year env) (now_month env) 0 = (now_month env, now_year env)"
    using months_before_cases [OF assms(1,2), of 0 "now_year env"] assms(1) by simp
  have step: "\<forall>k m y m' y'. 0 \<le> k \<and> k \<le> 4
            \<and> months_before (now_year env) (now_month env) (k + 1) = (m, y)
            \<and> months_before (now_year env) (now_month env) k = (m', y')
          \<longrightarrow> 1 \<le> m \<and> m \<le> 12 \<and> y' * 12 + m' = y * 12 + m + 1"
    using months_before_step [OF assms(1,2)] by blast
  have indep: "\<forall>s' e' d'. get_dashboard env s' e' uid db = Inr d'
          \<longrightarrow> d_monthly_comparison d' = d_monthly_comparison d"
    using any eq by simp
  have alltx: "length (filter (\<lambda>t. tx_user_id t = uid \<and> tx_deleted_at t = None) (transactions db))
           \<le> 100000
          \<longrightarrow> all_transactions_of uid (transactions db)
              = filter (\<lambda>t. tx_user_id t = uid \<and> tx_deleted_at t = None) (transactions db)"
    using all_transactions_of_all by blast
  show ?thesis
    by (intro conjI len eq zero step indep alltx)
qed

lemma example_months_before:
  "months_before 2024 3 5 = (10, 2023)" "months_before 2024 3 4 = (11, 2023)"
  "months_before 2024 3 3 = (12, 2023)" "months_before 2024 3 2 = (1, 2024)"
  "months_before 2024 3 1 = (2, 2024)" "months_before 2024 3 0 = (3, 2024)"
  by (simp_all add: months_before_def Let_def)

lemma example_all_transactions:
  "all_transactions_of ''u1'' (transactions example_report_ledger) =
     [example_tx ''f1'' INCOME 100 ''2024-02-05T09:00:00-03:00'' ''c2'' None,
      example_tx ''f2'' EXPENSE 200 ''2024-02-10T12:00:00-03:00'' ''c1'' None,
      example_tx ''m1'' INCOME 150 ''2024-03-10T12:00:00-03:00'' ''c2'' None,
      example_tx ''m2'' EXPENSE 100 ''2024-03-11T18:30:00-03:00'' ''c1'' None]"
  by (simp add: all_transactions_of_def example_report_defs)

lemma example_tx_sel:
  "tx_type (example_tx i ty a d c del) = ty"
  "tx_amount (example_tx i ty a d c del) = a"
  "tx_date (example_tx i ty a d c del) = d"
  by (simp_all add: example_tx_def)

lemma example_month_bounds:
  "isoformat_local 2023 10 1 0 0 0 = ''2023-10-01T00:00:00-03:00''"
  "isoformat_local 2023 10 (days_in_month 2023 10) 23 59 59 = ''2023-10-31T23:59:59-03:00''"
  "isoformat_local 2023 11 1 0 0 0 = ''2023-11-01T00:00:00-03:00''"
  "isoformat_local 2023 11 (days_in_month 2023 11) 23 59 59 = ''2023-11-30T23:59:59-03:00''"
  "isoformat_local 2023 12 1 0 0 0 = ''2023-12-01T00:00:00-03:00''"
  "isoformat_local 2023 12 (days_in_month 2023 12) 23 59 59 = ''2023-12-31T23:59:59-03:00''"
  "isoformat_local 2024 1 1 0 0 0 = ''2024-01-01T00:00:00-03:00''"
  "isoformat_local 2024 1 (days_in_month 2024 1) 23 59 59 = ''2024-01-31T23:59:59-03:00''"
  "isoformat_local 2024 2 1 0 0 0 = ''2024-02-01T00:00:00-03:00''"
  "isoformat_local 2024 2 (days_in_month 2024 2) 23 59 59 = ''2024-02-29T23:59:59-03:00''"
  "isoformat_local 2024 3 1 0 0 0 = ''2024-03-01T00:00:00-03:00''"
  "isoformat_local 2024 3 (days_in_month 2024 3) 23 59 59 = ''2024-03-31T23:59:59-03:00''"
  by (simp_all add: iso_defs)

lemma month_summary_unfold:
  "month_summary txs (m, y) =
     \<lparr> me_month = month_names ! nat (m - 1), me_year = y,
       me_income = round2 (sum_list (map tx_amount
          (filter (\<lambda>t. tx_type t = INCOME \<and> isoformat_local y m 1 0 0 0 \<le> tx_date t
                       \<and> tx_date t \<le> isoformat_local y m (days_in_month y m) 23 59 59) txs))),
       me_expense = round2 (sum_list (map tx_amount
          (filter (\<lambda>t. tx_type t = EXPENSE \<and> isoformat_local y m 1 0 0 0 \<le> tx_date t
                       \<and> tx_date t \<le> isoformat_local y m (days_in_month y m) 23 59 59) txs))) \<rparr>"
  by (simp add: month_summary_def Let_def)

lemma round2_ints:
  "round2 0 = 0" "round2 200 = 200"
  by code_simp+

lemma example_month_summary:
  "map (\<lambda>k. month_summary (all_transactions_of ''u1'' (transactions example_report_ledger))
              (months_before 2024 3 k)) [5, 4, 3, 2, 1, 0]
   = [\<lparr> me_month = ''Out'', me_year = 2023, me_income = 0, me_expense = 0 \<rparr>,
      \<lparr> me_month = ''Nov'', me_year = 2023, me_income = 0, me_expense = 0 \<rparr>,
      \<lparr> me_month = ''Dez'', me_year = 2023, me_income = 0, me_expense = 0 \<rparr>,
      \<lparr> me_month = ''Jan'', me_year = 2024, me_income = 0, me_expense = 0 \<rparr>,
      \<lparr> me_month = ''Fev'', me_year = 2024, me_income = 100, me_expense = 200 \<rparr>,
      \<lparr> me_month = ''Mar'', me_year = 2024, me_income = 150, me_expense = 100 \<rparr>]"
  unfolding example_months_before example_all_transactions list.map month_summary_unfold
    example_month_bounds
  by (simp add: example_tx_sel month_names_def round2_ints round2_examples round2_more)

text \<open>C8 on the example ledger with the current date in March 2024.\<close>

theorem dashboard_monthly_comparison_witness:
  "map_sum id d_monthly_comparison
     (get_dashboard example_dash_env None None ''u1'' example_report_ledger)
   = Inr [\<lparr> me_month = ''Out'', me_year = 2023, me_income = 0, me_expense = 0 \<rparr>,
          \<lparr> me_month = ''Nov'', me_year = 2023, me_income = 0, me_expense = 0 \<rparr>,
          \<lparr> me_month = ''Dez'', me_year = 2023, me_income = 0, me_expense = 0 \<rparr>,
          \<lparr> me_month = ''Jan'', me_year = 2024, me_income = 0, me_expense = 0 \<rparr>,
          \<lparr> me_month = ''Fev'', me_year = 2024, me_income = 100, me_expense = 200 \<rparr>,
          \<lparr> me_month = ''Mar'', me_year = 2024, me_income = 150, me_expense = 100 \<rparr>]"
proof -
  from get_dashboard_valid [OF example_now example_parse]
  obtain d where d: "get_dashboard example_dash_env None None ''u1'' example_report_ledger = Inr d"
    by blast
  from dashboard_monthly_comparison [OF example_now d]
  have "d_monthly_comparison d =
         map (\<lambda>k. month_summary (all_transactions_of ''u1'' (transactions example_report_ledger))
                     (months_before (now_year example_dash_env) (now_month example_dash_env) k))
           [5, 4, 3, 2, 1, 0]"
    by blast
  also have "now_year example_dash_env = 2024" by (simp add: example_dash_env_def)
  also have "now_month example_dash_env = 3" by (simp add: example_dash_env_def)
  finally have "d_monthly_comparison d =
         map (\<lambda>k. month_summary (all_transactions_of ''u1'' (transactions example_report_ledger))
                     (months_before 2024 3 k)) [5, 4, 3, 2, 1, 0]" .
  with d show ?thesis by (simp only: example_month_summary map_sum.simps)
qed

end
